theory Spec2Isabelle
  imports Main
begin

section \<open>JavaScript values shared by the worker and the frontend\<close>

text \<open>
  Strings are lists of characters. A thrown JavaScript exception is a value of
  \<open>js_error\<close>; a computation that may throw returns \<open>js_error + 'a\<close> with the
  exception on the left.
\<close>

datatype js_error = Error string | TypeError string

text \<open>\<open>a || b\<close> on an optional string: the empty string and \<open>undefined\<close> are falsy.\<close>

definition or_else :: "string option \<Rightarrow> string \<Rightarrow> string" where
  "or_else a b = (case a of None \<Rightarrow> b | Some s \<Rightarrow> if s = [] then b else s)"

text \<open>\<open>!env.KEY\<close> for an optional string binding.\<close>

definition falsy_key :: "string option \<Rightarrow> bool" where
  "falsy_key k = (case k of None \<Rightarrow> True | Some s \<Rightarrow> s = [])"

text \<open>A template literal prints \<open>null\<close> for a null string.\<close>

definition interpolate :: "string option \<Rightarrow> string" where
  "interpolate a = (case a of None \<Rightarrow> ''null'' | Some s \<Rightarrow> s)"

text \<open>\<open>Array.prototype.join\<close>.\<close>

fun join :: "string \<Rightarrow> string list \<Rightarrow> string" where
  "join sep [] = []"
| "join sep [x] = x"
| "join sep (x # y # ys) = x @ sep @ join sep (y # ys)"

text \<open>Decimal printing of a length, as a template literal does.\<close>

definition digit_char :: "nat \<Rightarrow> char" where
  "digit_char d = ''0123456789'' ! d"

function string_of_nat :: "nat \<Rightarrow> string" where
  "string_of_nat n =
     (if n < 10 then [digit_char n] else string_of_nat (n div 10) @ [digit_char (n mod 10)])"
  by pat_completeness auto
termination
  by (relation "measure id") auto

declare string_of_nat.simps [simp del]

text \<open>
  A JavaScript number that the code reads from or writes to an integer column: an
  integer, or \<open>NaN\<close> (what \<open>parseInt\<close> returns when it finds no digits).
\<close>

datatype js_number = Num int | NaN

definition string_of_int :: "int \<Rightarrow> string" where
  "string_of_int n = (if n < 0 then CHR ''-'' # string_of_nat (nat (- n)) else string_of_nat (nat n))"

fun number_toString :: "js_number \<Rightarrow> string" where
  "number_toString (Num n) = string_of_int n"
| "number_toString NaN = ''NaN''"

definition message :: "js_error \<Rightarrow> string" where
  "message e = (case e of Error m \<Rightarrow> m | TypeError m \<Rightarrow> m)"

text \<open>
  \<open>[...new Set(xs)]\<close>: a Set keeps its elements in insertion order, an element that is
  already present is not inserted again.
\<close>

fun set_add_all :: "'a list \<Rightarrow> 'a list \<Rightarrow> 'a list" where
  "set_add_all acc [] = acc"
| "set_add_all acc (x # xs) = set_add_all (if x \<in> set acc then acc else acc @ [x]) xs"

definition new_Set :: "'a list \<Rightarrow> 'a list" where
  "new_Set xs = set_add_all [] xs"

section \<open>Observable effects\<close>

text \<open>
  The calls a tool or an agent makes to the outside world, in program order. The
  concurrent calls of a \<open>Promise.all\<close> are listed in the order of the array.
\<close>

datatype event =
    WebSearch string
  | ModelCall
  | EmailVerification string
  | DbRead
  | DbWrite
  | Embedding string
  | VectorInsert "string list"
  | Log string

section \<open>The Exa search client\<close>

record exa_hit =
  hit_title :: "string option"
  hit_url :: string
  hit_text :: string

text \<open>
  \<open>exa.searchAndContents(query, {numResults, ...})\<close> is outside the repository: it is a
  parameter, a function of the query and of \<open>numResults\<close> that throws or returns hits.
\<close>

type_synonym exa_client = "string \<Rightarrow> nat \<Rightarrow> js_error + exa_hit list"

text \<open>The bindings the tools read from \<open>options.env\<close>; a binding may be missing.\<close>

record tool_env =
  EXA_API_KEY :: "string option"
  OPENAI_API_KEY :: "string option"

section \<open>tools/searchWeb.ts\<close>

record search_result =
  sr_title :: string
  sr_url :: string
  sr_content :: string

definition to_search_result :: "exa_hit \<Rightarrow> search_result" where
  "to_search_result r =
     \<lparr> sr_title = or_else (hit_title r) ''No title'',
       sr_url = hit_url r,
       sr_content = hit_text r \<rparr>"

definition searchWeb_execute ::
  "exa_client \<Rightarrow> tool_env \<Rightarrow> string \<Rightarrow> (js_error + search_result list) \<times> event list" where
  "searchWeb_execute exa env query =
     (if falsy_key (EXA_API_KEY env)
      then (Inl (Error ''Search tool - EXA_API_KEY is missing''), [])
      else case exa query 3 of
             Inr hits \<Rightarrow> (Inr (map to_search_result hits), [WebSearch query])
           | Inl error \<Rightarrow> (Inr [], [WebSearch query, Log ''Search failed:'']))"

section \<open>tools/emailFinder.ts\<close>

record email_extraction =
  ex_emails :: "string list"
  ex_employee_title :: string

record email_finder_input =
  in_name :: string
  in_domain :: string
  in_company :: "string option"

record email_finder_output =
  out_name :: "string option"
  out_company :: "string option"
  out_domain :: "string option"
  out_employee_title :: string
  out_emails :: "string list"
  out_verification_summary :: string

text \<open>
  The services the tool calls: the Exa client, \<open>generateObject\<close> (a function of the
  name, the domain and the search context the prompt is built from; its result already
  passed the schema, so the emails are strings) and \<open>verifyEmail\<close>, which returns a
  status string or throws.
\<close>

record email_finder_services =
  exa_searchAndContents :: exa_client
  generateObject :: "string \<Rightarrow> string \<Rightarrow> string \<Rightarrow> js_error + email_extraction"
  verifyEmail :: "string \<Rightarrow> js_error + string"

definition email_queries :: "email_finder_input \<Rightarrow> string list" where
  "email_queries i =
     (let who = in_name i @ '' '' @ or_else (in_company i) (in_domain i) in
      [who @ '' email address contact info'',
       who @ '' linkedin profile'',
       who @ '' rocketreach''])"

text \<open>Each search has its own \<open>.catch(e => ({ results: [] }))\<close>.\<close>

definition search_or_empty :: "exa_client \<Rightarrow> string \<Rightarrow> exa_hit list" where
  "search_or_empty exa q = (case exa q 2 of Inl e \<Rightarrow> [] | Inr hits \<Rightarrow> hits)"

definition format_hit :: "exa_hit \<Rightarrow> string" where
  "format_hit r =
     ''Title: '' @ interpolate (hit_title r) @ [CHR 10] @
     ''URL: '' @ hit_url r @ [CHR 10] @
     ''Content: '' @ hit_text r"

definition searchContext :: "email_finder_services \<Rightarrow> email_finder_input \<Rightarrow> string" where
  "searchContext w i =
     join ([CHR 10] @ ''---'' @ [CHR 10])
       (map format_hit
         (concat (map (search_or_empty (exa_searchAndContents w)) (email_queries i))))"

text \<open>One verification: the email is kept when the status is \<open>valid\<close>, a throw gives null.\<close>

definition check_email :: "email_finder_services \<Rightarrow> string \<Rightarrow> string option" where
  "check_email w email =
     (case verifyEmail w email of
        Inl e \<Rightarrow> None
      | Inr status \<Rightarrow> if status = ''valid'' then Some email else None)"

definition verify_all :: "email_finder_services \<Rightarrow> string list \<Rightarrow> string list" where
  "verify_all w uniqueEmails =
     (if length uniqueEmails > 0
      then List.map_filter (\<lambda>x. x) (map (check_email w) uniqueEmails)
      else [])"

definition emailFinder_execute ::
  "email_finder_services \<Rightarrow> tool_env \<Rightarrow> email_finder_input \<Rightarrow>
   (js_error + email_finder_output) \<times> event list" where
  "emailFinder_execute w env i =
     (if falsy_key (EXA_API_KEY env) \<or> falsy_key (OPENAI_API_KEY env)
      then (Inl (Error ''Missing API keys for emailFinder tool''), [])
      else
        let searches = map WebSearch (email_queries i);
            ctx = searchContext w i
        in case generateObject w (in_name i) (in_domain i) ctx of
             Inl e \<Rightarrow>
               (Inr \<lparr> out_name = None, out_company = None, out_domain = None,
                      out_employee_title = [], out_emails = [],
                      out_verification_summary = ''Extraction failed'' \<rparr>,
                searches @ [ModelCall, Log ''LLM extraction failed:''])
           | Inr extractedData \<Rightarrow>
               let uniqueEmails = new_Set (ex_emails extractedData);
                   verifiedEmails = verify_all w uniqueEmails
               in (Inr \<lparr> out_name = Some (in_name i),
                         out_company = Some (or_else (in_company i) ''Unknown''),
                         out_domain = Some (in_domain i),
                         out_employee_title = ex_employee_title extractedData,
                         out_emails = take 3 verifiedEmails,
                         out_verification_summary =
                           string_of_nat (length verifiedEmails) @ '' valid out of '' @
                           string_of_nat (length uniqueEmails) @ '' candidates'' \<rparr>,
                   searches @ [ModelCall] @ map EmailVerification uniqueEmails))"

text \<open>The emails that were handed to \<open>verifyEmail\<close>, read off the effects.\<close>

definition verification_calls :: "event list \<Rightarrow> string list" where
  "verification_calls tr = List.map_filter (\<lambda>e. case e of EmailVerification a \<Rightarrow> Some a | _ \<Rightarrow> None) tr"

section \<open>db/companies.schema.ts\<close>

text \<open>
  The rows of \<open>company_profiles\<close> and \<open>employees\<close>. A nullable column is an option;
  an integer column holds the number the code handed to the driver.
\<close>

record company_profile =
  c_id :: int
  c_companyName :: string
  c_website :: "string option"
  c_yearFounded :: "js_number option"
  c_description :: "string option"
  c_techStack :: "string option"
  c_employeeCountMin :: "js_number option"
  c_employeeCountMax :: "js_number option"
  c_revenue :: "string option"
  c_funding :: "string option"
  c_headquarters :: "string option"
  c_industry :: "string option"

record employee =
  e_id :: int
  e_employeeName :: string
  e_employeeTitle :: "string option"
  e_email :: "string option"
  e_companyId :: "int option"

section \<open>lib/vectorize.ts and routes/vectorize.ts\<close>

record company_metadata =
  m_company_id :: string
  m_company_name :: string
  m_website :: string
  m_year_founded :: string
  m_description :: string
  m_tech_stack :: string
  m_employee_count_min :: string
  m_employee_count_max :: string
  m_revenue :: string
  m_funding :: string
  m_headquarters :: string
  m_industry :: string

record 'emb company_vector =
  v_id :: string
  v_values :: 'emb
  v_metadata :: company_metadata

text \<open>
  The bindings of the handler: the result of \<open>db.select().from(companyProfiles).all()\<close>
  (the rows, or a throw), \<open>AI.run\<close> as a function of the text that returns
  \<open>embedding.data[0]\<close> or throws, and \<open>COMPANY_VECTORS.insert\<close>.
\<close>

record ('emb, 'det) vectorize_env =
  DB_all_companies :: "js_error + company_profile list"
  AI_run :: "string \<Rightarrow> js_error + 'emb"
  COMPANY_VECTORS_insert :: "'emb company_vector list \<Rightarrow> js_error + 'det"

record 'det populate_result =
  success :: bool
  message_field :: "string option"
  errors_field :: "(string \<times> string) list option"
  details_field :: "'det option"
  error_field :: "string option"

text \<open>\<open>x || ''\<close> and \<open>n?.toString() || ''\<close> on nullable columns.\<close>

definition or_empty :: "string option \<Rightarrow> string" where
  "or_empty a = or_else a []"

definition number_or_empty :: "js_number option \<Rightarrow> string" where
  "number_or_empty a = (case a of None \<Rightarrow> [] | Some n \<Rightarrow> number_toString n)"

definition textToEmbed :: "company_profile \<Rightarrow> string" where
  "textToEmbed company =
     c_companyName company @ '' '' @ or_empty (c_description company) @ '' '' @
     or_empty (c_techStack company) @ '' '' @ or_empty (c_industry company)"

definition company_vector_of :: "company_profile \<Rightarrow> 'emb \<Rightarrow> 'emb company_vector" where
  "company_vector_of company emb =
     \<lparr> v_id = ''company_'' @ string_of_int (c_id company),
       v_values = emb,
       v_metadata =
         \<lparr> m_company_id = string_of_int (c_id company),
           m_company_name = c_companyName company,
           m_website = or_empty (c_website company),
           m_year_founded = number_or_empty (c_yearFounded company),
           m_description = or_empty (c_description company),
           m_tech_stack = or_empty (c_techStack company),
           m_employee_count_min = number_or_empty (c_employeeCountMin company),
           m_employee_count_max = number_or_empty (c_employeeCountMax company),
           m_revenue = or_empty (c_revenue company),
           m_funding = or_empty (c_funding company),
           m_headquarters = or_empty (c_headquarters company),
           m_industry = or_empty (c_industry company) \<rparr> \<rparr>"

text \<open>
  The \<open>for (const company of companies)\<close> loop: each row is embedded; a throw inside the
  loop body is recorded in \<open>errors\<close> and the loop goes on.
\<close>

fun embed_companies ::
  "(string \<Rightarrow> js_error + 'emb) \<Rightarrow> company_profile list \<Rightarrow>
   'emb company_vector list \<times> (string \<times> string) list" where
  "embed_companies run [] = ([], [])"
| "embed_companies run (company # rest) =
     (let (vectors, errors) = embed_companies run rest in
      case run (textToEmbed company) of
        Inr emb \<Rightarrow> (company_vector_of company emb # vectors, errors)
      | Inl error \<Rightarrow> (vectors, (c_companyName company, message error) # errors))"

definition populateCompanies ::
  "('emb, 'det) vectorize_env \<Rightarrow> 'det populate_result \<times> event list" where
  "populateCompanies env =
     (case DB_all_companies env of
        Inl error \<Rightarrow>
          (\<lparr> success = False, message_field = None, errors_field = None,
              details_field = None, error_field = Some (message error) \<rparr>, [DbRead])
      | Inr companies \<Rightarrow>
          if length companies = 0
          then (\<lparr> success = False, message_field = Some ''No companies found in database'',
                   errors_field = None, details_field = None, error_field = None \<rparr>, [DbRead])
          else
            let (vectors, errors) = embed_companies (AI_run env) companies;
                embeds = map (\<lambda>c. Embedding (textToEmbed c)) companies
            in if length vectors > 0
               then (case COMPANY_VECTORS_insert env vectors of
                       Inr inserted \<Rightarrow>
                         (\<lparr> success = True,
                             message_field = Some (''Populated '' @ string_of_nat (length vectors)
                                                   @ '' company vectors''),
                             errors_field = (if length errors > 0 then Some errors else None),
                             details_field = Some inserted, error_field = None \<rparr>,
                          [DbRead] @ embeds @ [VectorInsert (map v_id vectors)])
                     | Inl error \<Rightarrow>
                         (\<lparr> success = False, message_field = None, errors_field = None,
                             details_field = None, error_field = Some (message error) \<rparr>,
                          [DbRead] @ embeds @ [VectorInsert (map v_id vectors)]))
               else (\<lparr> success = False, message_field = Some ''No vectors generated'',
                        errors_field = Some errors, details_field = None, error_field = None \<rparr>,
                     [DbRead] @ embeds))"

text \<open>
  \<open>VectorizePopulateCompaniesRoute.handle\<close>: the validated \<open>offset\<close> and \<open>limit\<close> are
  passed to \<open>populateCompanies\<close>, which declares no parameter and so never reads them.
  The response is the status and the JSON body.
\<close>

definition VectorizePopulateCompaniesRoute_handle ::
  "js_number \<Rightarrow> js_number \<Rightarrow> ('emb, 'det) vectorize_env \<Rightarrow>
   (nat \<times> 'det populate_result) \<times> event list" where
  "VectorizePopulateCompaniesRoute_handle offset limit env =
     (let (result, effects) = populateCompanies env in
      ((if success result then 200 else 500, result), effects))"

text \<open>The keys of the JSON body: \<open>Response.json\<close> leaves out a property that is undefined.\<close>

definition body_keys :: "'det populate_result \<Rightarrow> string list" where
  "body_keys r =
     [''success''] @
     (if message_field r = None then [] else [''message'']) @
     (if errors_field r = None then [] else [''errors'']) @
     (if details_field r = None then [] else [''details'']) @
     (if error_field r = None then [] else [''error''])"

definition embedded_texts :: "event list \<Rightarrow> string list" where
  "embedded_texts tr = List.map_filter (\<lambda>e. case e of Embedding t \<Rightarrow> Some t | _ \<Rightarrow> None) tr"

section \<open>routes/templates.ts\<close>

text \<open>
  A row of the \<open>templates\<close> table, with the columns the routes read and write. Dates are
  milliseconds since the epoch; \<open>new Date()\<close>, \<open>crypto.randomUUID()\<close> and
  \<open>toISOString\<close> are parameters of the handlers.
\<close>

record template_row =
  t_id :: string
  t_userId :: string
  t_name :: string
  t_subject :: string
  t_body :: string
  t_createdAt :: int
  t_updatedAt :: int

record template_json =
  tj_id :: string
  tj_userId :: string
  tj_name :: string
  tj_subject :: string
  tj_body :: string
  tj_createdAt :: string
  tj_updatedAt :: string

datatype templates_body =
    ErrorBody string
  | TemplatesList "template_json list"
  | TemplateCreated template_json
  | TemplateUpdated template_json
  | SuccessOnly

record templates_response =
  status :: nat
  body :: templates_body

record clock =
  now :: int
  randomUUID :: string
  toISOString :: "int \<Rightarrow> string"

text \<open>\<open>auth.api.getSession\<close> is the third-party library: its result is the id of the
  session's user, or nothing when \<open>session?.user\<close> is missing.\<close>

type_synonym session = "string option"

definition unauthorized :: templates_response where
  "unauthorized = \<lparr> status = 401, body = ErrorBody ''Unauthorized'' \<rparr>"

definition not_found :: templates_response where
  "not_found = \<lparr> status = 404, body = ErrorBody ''Template not found'' \<rparr>"

definition to_json :: "clock \<Rightarrow> template_row \<Rightarrow> template_json" where
  "to_json k t =
     \<lparr> tj_id = t_id t, tj_userId = t_userId t, tj_name = t_name t, tj_subject = t_subject t,
       tj_body = t_body t, tj_createdAt = toISOString k (t_createdAt t),
       tj_updatedAt = toISOString k (t_updatedAt t) \<rparr>"

definition ProtectedTemplatesListRoute_handle ::
  "clock \<Rightarrow> session \<Rightarrow> template_row list \<Rightarrow>
   templates_response \<times> template_row list \<times> event list" where
  "ProtectedTemplatesListRoute_handle k session templates =
     (case session of
        None \<Rightarrow> (unauthorized, templates, [])
      | Some uid \<Rightarrow>
          let userTemplates =
                sort_key (\<lambda>t. - t_createdAt t) (filter (\<lambda>t. t_userId t = uid) templates)
          in (\<lparr> status = 200, body = TemplatesList (map (to_json k) userTemplates) \<rparr>,
              templates, [DbRead]))"

definition ProtectedTemplatesCreateRoute_handle ::
  "clock \<Rightarrow> session \<Rightarrow> string \<Rightarrow> string \<Rightarrow> string \<Rightarrow> template_row list \<Rightarrow>
   templates_response \<times> template_row list \<times> event list" where
  "ProtectedTemplatesCreateRoute_handle k session name subject body_text templates =
     (case session of
        None \<Rightarrow> (unauthorized, templates, [])
      | Some uid \<Rightarrow>
          let newTemplate =
                \<lparr> t_id = randomUUID k, t_userId = uid, t_name = name, t_subject = subject,
                  t_body = body_text, t_createdAt = now k, t_updatedAt = now k \<rparr>
          in (\<lparr> status = 200, body = TemplateCreated (to_json k newTemplate) \<rparr>,
              templates @ [newTemplate], [DbWrite]))"

text \<open>\<open>.set({ name, subject, body, updatedAt })\<close>: a value that is undefined is left out
  of the update; \<open>updatedAt\<close> is always set.\<close>

definition set_fields ::
  "clock \<Rightarrow> string option \<Rightarrow> string option \<Rightarrow> string option \<Rightarrow> template_row \<Rightarrow> template_row" where
  "set_fields k name subject body_text t =
     t \<lparr> t_name := (case name of None \<Rightarrow> t_name t | Some n \<Rightarrow> n),
         t_subject := (case subject of None \<Rightarrow> t_subject t | Some s \<Rightarrow> s),
         t_body := (case body_text of None \<Rightarrow> t_body t | Some b \<Rightarrow> b),
         t_updatedAt := now k \<rparr>"

text \<open>The \<open>where\<close> clause of both the update and the delete.\<close>

definition owned :: "string \<Rightarrow> string \<Rightarrow> template_row \<Rightarrow> bool" where
  "owned tid uid t = (t_id t = tid \<and> t_userId t = uid)"

definition ProtectedTemplatesUpdateRoute_handle ::
  "clock \<Rightarrow> session \<Rightarrow> string \<Rightarrow> string option \<Rightarrow> string option \<Rightarrow> string option \<Rightarrow>
   template_row list \<Rightarrow> templates_response \<times> template_row list \<times> event list" where
  "ProtectedTemplatesUpdateRoute_handle k session tid name subject body_text templates =
     (case session of
        None \<Rightarrow> (unauthorized, templates, [])
      | Some uid \<Rightarrow>
          let templates' =
                map (\<lambda>t. if owned tid uid t then set_fields k name subject body_text t else t)
                  templates;
              result = filter (owned tid uid) templates'
          in (case result of
                [] \<Rightarrow> (not_found, templates', [DbWrite])
              | updated # _ \<Rightarrow>
                  (\<lparr> status = 200, body = TemplateUpdated (to_json k updated) \<rparr>,
                   templates', [DbWrite])))"

definition ProtectedTemplatesDeleteRoute_handle ::
  "session \<Rightarrow> string \<Rightarrow> template_row list \<Rightarrow>
   templates_response \<times> template_row list \<times> event list" where
  "ProtectedTemplatesDeleteRoute_handle session tid templates =
     (case session of
        None \<Rightarrow> (unauthorized, templates, [])
      | Some uid \<Rightarrow>
          let result = filter (owned tid uid) templates;
              templates' = filter (\<lambda>t. \<not> owned tid uid t) templates
          in (if length result = 0 then not_found
              else \<lparr> status = 200, body = SuccessOnly \<rparr>,
              templates', [DbWrite]))"

text \<open>The four requests the templates routes serve.\<close>

datatype templates_request =
    ListTemplates
  | CreateTemplate string string string
  | UpdateTemplate string "string option" "string option" "string option"
  | DeleteTemplate string

fun templates_route ::
  "clock \<Rightarrow> session \<Rightarrow> templates_request \<Rightarrow> template_row list \<Rightarrow>
   templates_response \<times> template_row list \<times> event list" where
  "templates_route k s ListTemplates ts = ProtectedTemplatesListRoute_handle k s ts"
| "templates_route k s (CreateTemplate n su b) ts = ProtectedTemplatesCreateRoute_handle k s n su b ts"
| "templates_route k s (UpdateTemplate tid n su b) ts =
     ProtectedTemplatesUpdateRoute_handle k s tid n su b ts"
| "templates_route k s (DeleteTemplate tid) ts = ProtectedTemplatesDeleteRoute_handle s tid ts"

definition is_update_or_delete :: "templates_request \<Rightarrow> bool" where
  "is_update_or_delete r = (case r of UpdateTemplate _ _ _ _ \<Rightarrow> True | DeleteTemplate _ \<Rightarrow> True | _ \<Rightarrow> False)"

definition named_id :: "templates_request \<Rightarrow> string" where
  "named_id r = (case r of UpdateTemplate tid _ _ _ \<Rightarrow> tid | DeleteTemplate tid \<Rightarrow> tid | _ \<Rightarrow> [])"

definition example_clock :: clock where
  "example_clock = \<lparr> now = 2000, randomUUID = ''t-9'', toISOString = (\<lambda>ms. string_of_int ms) \<rparr>"

definition example_templates :: "template_row list" where
  "example_templates =
     [\<lparr> t_id = ''t-1'', t_userId = ''alice'', t_name = ''Intro'', t_subject = ''Hello'',
        t_body = ''Hi {{firstName}}'', t_createdAt = 1000, t_updatedAt = 1000 \<rparr>,
      \<lparr> t_id = ''t-2'', t_userId = ''bob'', t_name = ''Pitch'', t_subject = ''Idea'',
        t_body = ''About {{company}}'', t_createdAt = 1500, t_updatedAt = 1500 \<rparr>]"

section \<open>components/person-card.tsx: prefilling the compose fields from a template\<close>

text \<open>
  \<open>GetSubstitution\<close> of ECMAScript for a match without capture groups: in the
  replacement text \<open>$$\<close> stands for a dollar sign, \<open>$&\<close> for the matched text, a dollar
  and a backquote for the text before the match, a dollar and a quote for the text after
  it; every other character, a dollar before a digit included, stands for itself.
\<close>

fun getSubstitution :: "string \<Rightarrow> string \<Rightarrow> nat \<Rightarrow> string \<Rightarrow> string" where
  "getSubstitution matched str position [] = []"
| "getSubstitution matched str position [c] = [c]"
| "getSubstitution matched str position (c # d # rest) =
     (if c = CHR ''$'' then
        (if d = CHR ''$'' then CHR ''$'' # getSubstitution matched str position rest
         else if d = CHR ''&'' then matched @ getSubstitution matched str position rest
         else if d = CHR 0x60 then take position str @ getSubstitution matched str position rest
         else if d = CHR 0x27
           then drop (position + length matched) str @ getSubstitution matched str position rest
         else c # getSubstitution matched str position (d # rest))
      else c # getSubstitution matched str position (d # rest))"

text \<open>
  \<open>str.replace(/pat/g, replacement)\<close> for a pattern that is a literal, non-empty text, as
  both patterns of \<open>handleTemplateSelect\<close> are: the matches are found from left to right,
  each search starts behind the previous match, and the text between the matches is kept.
  \<open>rest\<close> is the part of \<open>str\<close> from \<open>position\<close> on.
\<close>

function replace_from :: "string \<Rightarrow> string \<Rightarrow> string \<Rightarrow> nat \<Rightarrow> string \<Rightarrow> string" where
  "replace_from pat replacement str position rest =
     (if pat = [] \<or> rest = [] then rest
      else if take (length pat) rest = pat
        then getSubstitution pat str position replacement @
             replace_from pat replacement str (position + length pat) (drop (length pat) rest)
        else hd rest # replace_from pat replacement str (position + 1) (tl rest))"
  by pat_completeness auto
termination
  by (relation "measure (\<lambda>(pat, replacement, str, position, rest). length rest)") auto

declare replace_from.simps [simp del]

definition replace_g :: "string \<Rightarrow> string \<Rightarrow> string \<Rightarrow> string" where
  "replace_g pat replacement str = replace_from pat replacement str 0 str"

record template =
  tmpl_subject :: string
  tmpl_body :: string

record compose_fields =
  emailSubject :: string
  emailBody :: string

text \<open>\<open>person.name.split(' ')[0]\<close>: the text before the first space.\<close>

definition firstName_of :: "string \<Rightarrow> string" where
  "firstName_of name = takeWhile (\<lambda>c. c \<noteq> CHR '' '') name"

definition handleTemplateSelect :: "string \<Rightarrow> string option \<Rightarrow> template \<Rightarrow> compose_fields" where
  "handleTemplateSelect person_name companyName tmpl =
     (let firstName = firstName_of person_name;
          company = or_else companyName ''your company'';
          b = tmpl_body tmpl;
          b = replace_g ''{{firstName}}'' firstName b;
          b = replace_g ''{{company}}'' company b
      in \<lparr> emailSubject = tmpl_subject tmpl, emailBody = b \<rparr>)"

text \<open>
  The substitution in the words of the specification: every occurrence of the placeholder,
  from left to right, is replaced by the given text as it is.
\<close>

function replace_every_occurrence :: "string \<Rightarrow> string \<Rightarrow> string \<Rightarrow> string" where
  "replace_every_occurrence placeholder text s =
     (if placeholder = [] \<or> s = [] then s
      else if take (length placeholder) s = placeholder
        then text @ replace_every_occurrence placeholder text (drop (length placeholder) s)
        else hd s # replace_every_occurrence placeholder text (tl s))"
  by pat_completeness auto
termination
  by (relation "measure (\<lambda>(placeholder, text, s). length s)") auto

declare replace_every_occurrence.simps [simp del]

text \<open>The prefill as the specification words it: both fields are substituted.\<close>

definition substitute_placeholders :: "string \<Rightarrow> string option \<Rightarrow> string \<Rightarrow> string" where
  "substitute_placeholders person_name companyName s =
     replace_every_occurrence ''{{company}}'' (or_else companyName ''your company'')
       (replace_every_occurrence ''{{firstName}}'' (firstName_of person_name) s)"

definition prefill_as_specified :: "string \<Rightarrow> string option \<Rightarrow> template \<Rightarrow> compose_fields" where
  "prefill_as_specified person_name companyName tmpl =
     \<lparr> emailSubject = substitute_placeholders person_name companyName (tmpl_subject tmpl),
       emailBody = substitute_placeholders person_name companyName (tmpl_body tmpl) \<rparr>"

definition example_template :: template where
  "example_template =
     \<lparr> tmpl_subject = ''Hi {{firstName}}'',
       tmpl_body = ''Dear {{firstName}}, I admire {{company}}.'' \<rparr>"

section \<open>JSON values and the cleanup of model output\<close>

text \<open>
  The values the agents take from \<open>JSON.parse\<close> and pass on: types are erased at run
  time, so a field that the TypeScript declares a string may hold any of them. Numbers are
  the integers and \<open>NaN\<close>; an object is the list of its own properties.
\<close>

datatype js_value =
    JUndefined
  | JNull
  | JBool bool
  | JNumber js_number
  | JString string
  | JArray "js_value list"
  | JObject "(string \<times> js_value) list"

fun truthy :: "js_value \<Rightarrow> bool" where
  "truthy JUndefined = False"
| "truthy JNull = False"
| "truthy (JBool b) = b"
| "truthy (JNumber (Num n)) = (n \<noteq> 0)"
| "truthy (JNumber NaN) = False"
| "truthy (JString s) = (s \<noteq> [])"
| "truthy (JArray xs) = True"
| "truthy (JObject kvs) = True"

text \<open>\<open>a || b\<close> on values.\<close>

definition js_or :: "js_value \<Rightarrow> js_value \<Rightarrow> js_value" where
  "js_or a b = (if truthy a then a else b)"

text \<open>
  \<open>v.key\<close> for the property names the agents read (none of them is a method or a
  property of a prototype, except \<open>length\<close>): reading a property of \<open>null\<close> or
  \<open>undefined\<close> throws a TypeError, a missing property is \<open>undefined\<close>.
\<close>

fun get_prop :: "js_value \<Rightarrow> string \<Rightarrow> js_error + js_value" where
  "get_prop JUndefined key = Inl (TypeError ''Cannot read properties of undefined'')"
| "get_prop JNull key = Inl (TypeError ''Cannot read properties of null'')"
| "get_prop (JObject kvs) key = Inr (case map_of kvs key of Some v \<Rightarrow> v | None \<Rightarrow> JUndefined)"
| "get_prop (JArray xs) key =
     Inr (if key = ''length'' then JNumber (Num (int (length xs))) else JUndefined)"
| "get_prop (JString s) key =
     Inr (if key = ''length'' then JNumber (Num (int (length s))) else JUndefined)"
| "get_prop (JBool b) key = Inr JUndefined"
| "get_prop (JNumber n) key = Inr JUndefined"

definition isArray :: "js_value \<Rightarrow> bool" where
  "isArray v = (case v of JArray xs \<Rightarrow> True | _ \<Rightarrow> False)"

text \<open>
  White space as \<open>String.prototype.trim\<close> and the class \<open>\s\<close> of a regular expression see
  it, among the characters of one byte: tab, line feed, vertical tab, form feed, carriage
  return, space and the no-break space.
\<close>

definition is_space :: "char \<Rightarrow> bool" where
  "is_space c = (c \<in> {CHR 0x09, CHR 0x0A, CHR 0x0B, CHR 0x0C, CHR 0x0D, CHR 0x20, CHR 0xA0})"

definition trimEnd :: "string \<Rightarrow> string" where
  "trimEnd s = rev (dropWhile is_space (rev s))"

definition trim :: "string \<Rightarrow> string" where
  "trim s = trimEnd (dropWhile is_space s)"

definition startsWith :: "string \<Rightarrow> string \<Rightarrow> bool" where
  "startsWith s p = (take (length p) s = p)"

definition endsWith :: "string \<Rightarrow> string \<Rightarrow> bool" where
  "endsWith s p = (length p \<le> length s \<and> drop (length s - length p) s = p)"

text \<open>\<open>.replace(/^```json\s*/, '')\<close> and \<open>.replace(/^```\s*/, '')\<close> on a text that starts
  with the fence: the fence and the white space behind it are removed.\<close>

definition strip_leading :: "string \<Rightarrow> string \<Rightarrow> string" where
  "strip_leading fence s =
     (if startsWith s fence then dropWhile is_space (drop (length fence) s) else s)"

text \<open>\<open>.replace(/\s*```$/, '')\<close>: when the text ends with three backquotes, they and the
  white space before them are removed; otherwise there is no match.\<close>

definition strip_trailing_fence :: "string \<Rightarrow> string" where
  "strip_trailing_fence s =
     (if endsWith s ''```'' then trimEnd (take (length s - 3) s) else s)"

text \<open>
  \<open>.match(/\{[\s\S]*\}/)\<close>: the leftmost match starts at the first opening brace that has
  a closing brace behind it, which can only be the first opening brace of the text, and
  being greedy it ends at the last closing brace. There is no match when no closing brace
  follows the first opening brace.
\<close>

definition jsonMatch :: "string \<Rightarrow> string option" where
  "jsonMatch s =
     (let fromOpen = dropWhile (\<lambda>c. c \<noteq> CHR ''{'') s;
          m = rev (dropWhile (\<lambda>c. c \<noteq> CHR ''}'') (rev fromOpen))
      in if m = [] then None else Some m)"

text \<open>The cleanup the Orchestrator, the PeopleFinder and the EmailFinder all apply to
  \<open>result.text\<close> before \<open>JSON.parse\<close>.\<close>

definition cleanText :: "string \<Rightarrow> string" where
  "cleanText text =
     (let t = trim text;
          t = (if startsWith t ''```json''
               then strip_trailing_fence (strip_leading ''```json'' t)
               else if startsWith t ''```''
               then strip_trailing_fence (strip_leading ''```'' t)
               else t)
      in case jsonMatch t of Some m \<Rightarrow> m | None \<Rightarrow> t)"

text \<open>
  The same steps in the words of the specification: trim; strip a leading fence and a
  trailing fence; then, if the text contains an opening brace, keep the part from the
  first opening brace through the last closing brace.
\<close>

definition unfenced :: "string \<Rightarrow> string" where
  "unfenced text =
     (let t = trim text in
      if startsWith t ''```json'' then strip_trailing_fence (strip_leading ''```json'' t)
      else if startsWith t ''```'' then strip_trailing_fence (strip_leading ''```'' t)
      else t)"

definition first_open_through_last_close :: "string \<Rightarrow> string" where
  "first_open_through_last_close t =
     rev (dropWhile (\<lambda>c. c \<noteq> CHR ''}'') (rev (dropWhile (\<lambda>c. c \<noteq> CHR ''{'') t)))"

text \<open>The text has an opening brace with a closing brace somewhere behind it.\<close>

definition has_open_then_close :: "string \<Rightarrow> bool" where
  "has_open_then_close t = (CHR ''}'' \<in> set (dropWhile (\<lambda>c. c \<noteq> CHR ''{'') t))"

definition cleanText_as_specified :: "string \<Rightarrow> string" where
  "cleanText_as_specified text =
     (let t = unfenced text in
      if CHR ''{'' \<in> set t then first_open_through_last_close t else t)"

section \<open>db/companies.ts: the database and the two upserts\<close>

text \<open>
  The state of the D1 database the upserts work on: the two tables, the number of
  statements executed so far, and the statements at which D1 throws. Every statement the
  code awaits goes through \<open>d1\<close>; a statement that throws changes no table.
\<close>

record database =
  company_profiles :: "company_profile list"
  employees :: "employee list"
  statements :: nat
  failing :: "nat \<Rightarrow> bool"

definition d1 :: "database \<Rightarrow> js_error option \<times> database" where
  "d1 db =
     (if failing db (statements db) then Some (Error ''D1_ERROR'') else None,
      db \<lparr> statements := Suc (statements db) \<rparr>)"

text \<open>Sequencing of computations that may throw.\<close>

definition and_then :: "js_error + 'a \<Rightarrow> ('a \<Rightarrow> js_error + 'b) \<Rightarrow> js_error + 'b" where
  "and_then m f = (case m of Inl e \<Rightarrow> Inl e | Inr x \<Rightarrow> f x)"

text \<open>\<open>v.trim()\<close>: only a string has the method.\<close>

definition js_trim :: "js_value \<Rightarrow> js_error + string" where
  "js_trim v = (case v of JString s \<Rightarrow> Inr (trim s) | _ \<Rightarrow> Inl (TypeError ''trim is not a function''))"

text \<open>\<open>if (!name || name.trim() === "") throw new Error(msg)\<close>, then \<open>name.trim()\<close>.\<close>

definition required_name :: "string \<Rightarrow> js_value \<Rightarrow> js_error + string" where
  "required_name msg name =
     (if \<not> truthy name then Inl (Error msg)
      else and_then (js_trim name) (\<lambda>t. if t = [] then Inl (Error msg) else Inr t))"

text \<open>\<open>v && v.trim() !== ""\<close>, and the \<open>v.trim()\<close> that is stored when it holds.\<close>

definition nonblank :: "js_value \<Rightarrow> js_error + string option" where
  "nonblank v =
     (if \<not> truthy v then Inr None
      else and_then (js_trim v) (\<lambda>t. Inr (if t = [] then None else Some t)))"

text \<open>\<open>v?.trim() || null\<close>.\<close>

definition trimmed_or_null :: "js_value \<Rightarrow> js_error + string option" where
  "trimmed_or_null v =
     (if v = JUndefined \<or> v = JNull then Inr None
      else and_then (js_trim v) (\<lambda>t. Inr (if t = [] then None else Some t)))"

text \<open>A numeric field of \<open>additionalData\<close>: \<open>number | null | undefined\<close>.\<close>

datatype 'a optional = Missing | IsNull | Given 'a

record company_data =
  d_description :: js_value
  d_techStack :: js_value
  d_industry :: js_value
  d_yearFounded :: "js_number optional"
  d_headquarters :: js_value
  d_revenue :: js_value
  d_funding :: js_value
  d_employeeCountMin :: "js_number optional"
  d_employeeCountMax :: "js_number optional"

text \<open>\<open>LOWER\<close> of SQLite folds the letters A to Z only.\<close>

definition lower_char :: "char \<Rightarrow> char" where
  "lower_char c =
     (case map_of (zip ''ABCDEFGHIJKLMNOPQRSTUVWXYZ'' ''abcdefghijklmnopqrstuvwxyz'') c of
        Some l \<Rightarrow> l
      | None \<Rightarrow> c)"

definition LOWER :: "string \<Rightarrow> string" where
  "LOWER s = map lower_char s"

text \<open>The id an autoincrement column gives the next row.\<close>

definition next_id :: "int list \<Rightarrow> int" where
  "next_id ids = fold max ids 0 + 1"

text \<open>
  The values an upsert of a company works with after trimming: a text is present when
  its trimmed value is not empty. \<open>updateData\<close> holds them; \<open>fieldsToUpdate\<close> are the
  texts that are present and the numbers that are given.
\<close>

record company_values =
  v_website :: "string option"
  v_description :: "string option"
  v_techStack :: "string option"
  v_industry :: "string option"
  v_yearFounded :: "js_number optional"
  v_headquarters :: "string option"
  v_revenue :: "string option"
  v_funding :: "string option"
  v_employeeCountMin :: "js_number optional"
  v_employeeCountMax :: "js_number optional"

definition no_data :: company_data where
  "no_data =
     \<lparr> d_description = JUndefined, d_techStack = JUndefined, d_industry = JUndefined,
       d_yearFounded = Missing, d_headquarters = JUndefined, d_revenue = JUndefined,
       d_funding = JUndefined, d_employeeCountMin = Missing, d_employeeCountMax = Missing \<rparr>"

definition updateData :: "string option \<Rightarrow> company_data option \<Rightarrow> js_error + company_values" where
  "updateData site additionalData =
     (let a = (case additionalData of None \<Rightarrow> no_data | Some a \<Rightarrow> a) in
      and_then (trimmed_or_null (d_description a)) (\<lambda>description.
      and_then (trimmed_or_null (d_techStack a)) (\<lambda>techStack.
      and_then (trimmed_or_null (d_industry a)) (\<lambda>industry.
      and_then (trimmed_or_null (d_headquarters a)) (\<lambda>headquarters.
      and_then (trimmed_or_null (d_revenue a)) (\<lambda>revenue.
      and_then (trimmed_or_null (d_funding a)) (\<lambda>funding.
        Inr \<lparr> v_website = site, v_description = description, v_techStack = techStack,
              v_industry = industry, v_yearFounded = d_yearFounded a,
              v_headquarters = headquarters, v_revenue = revenue, v_funding = funding,
              v_employeeCountMin = d_employeeCountMin a,
              v_employeeCountMax = d_employeeCountMax a \<rparr>)))))))"

definition set_text :: "string option \<Rightarrow> string option \<Rightarrow> string option" where
  "set_text new old = (case new of None \<Rightarrow> old | Some t \<Rightarrow> Some t)"

text \<open>
  A number of \<open>fieldsToUpdate\<close> in the \<open>UPDATE\<close>: \<open>null\<close> and \<open>undefined\<close> were filtered
  out and leave the column as it is; any number is bound to the statement, also \<open>NaN\<close>,
  which passes \<open>v !== null && v !== undefined\<close>. SQLite has no \<open>NaN\<close>: a \<open>NaN\<close> that is
  bound is stored as \<open>NULL\<close>.
\<close>

definition set_number :: "js_number optional \<Rightarrow> js_number option \<Rightarrow> js_number option" where
  "set_number new old =
     (case new of Given (Num k) \<Rightarrow> Some (Num k) | Given NaN \<Rightarrow> None | _ \<Rightarrow> old)"

definition is_given :: "'a optional \<Rightarrow> bool" where
  "is_given x = (case x of Given n \<Rightarrow> True | _ \<Rightarrow> False)"

definition has_fields :: "company_values \<Rightarrow> bool" where
  "has_fields v =
     (v_website v \<noteq> None \<or> v_description v \<noteq> None \<or> v_techStack v \<noteq> None \<or>
      v_industry v \<noteq> None \<or> is_given (v_yearFounded v) \<or> v_headquarters v \<noteq> None \<or>
      v_revenue v \<noteq> None \<or> v_funding v \<noteq> None \<or> is_given (v_employeeCountMin v) \<or>
      is_given (v_employeeCountMax v))"

definition set_company :: "company_values \<Rightarrow> company_profile \<Rightarrow> company_profile" where
  "set_company v r =
     r \<lparr> c_website := set_text (v_website v) (c_website r),
         c_description := set_text (v_description v) (c_description r),
         c_techStack := set_text (v_techStack v) (c_techStack r),
         c_industry := set_text (v_industry v) (c_industry r),
         c_yearFounded := set_number (v_yearFounded v) (c_yearFounded r),
         c_headquarters := set_text (v_headquarters v) (c_headquarters r),
         c_revenue := set_text (v_revenue v) (c_revenue r),
         c_funding := set_text (v_funding v) (c_funding r),
         c_employeeCountMin := set_number (v_employeeCountMin v) (c_employeeCountMin r),
         c_employeeCountMax := set_number (v_employeeCountMax v) (c_employeeCountMax r) \<rparr>"

text \<open>\<open>n || null\<close> on a numeric field: zero and \<open>NaN\<close> are falsy.\<close>

definition number_or_null :: "js_number optional \<Rightarrow> js_number option" where
  "number_or_null n = (case n of Given (Num k) \<Rightarrow> (if k = 0 then None else Some (Num k)) | _ \<Rightarrow> None)"

definition new_company :: "int \<Rightarrow> string \<Rightarrow> string option \<Rightarrow> company_values \<Rightarrow> company_profile" where
  "new_company i normalizedName site v =
     \<lparr> c_id = i, c_companyName = normalizedName, c_website = site,
       c_yearFounded = number_or_null (v_yearFounded v),
       c_description = v_description v, c_techStack = v_techStack v,
       c_employeeCountMin = number_or_null (v_employeeCountMin v),
       c_employeeCountMax = number_or_null (v_employeeCountMax v),
       c_revenue = v_revenue v, c_funding = v_funding v,
       c_headquarters = v_headquarters v, c_industry = v_industry v \<rparr>"

text \<open>The \<open>where\<close> clause of the lookup: the name, or also the website when one is given.\<close>

definition company_matches :: "string \<Rightarrow> string option \<Rightarrow> company_profile \<Rightarrow> bool" where
  "company_matches normalizedName site r =
     (LOWER (c_companyName r) = LOWER normalizedName \<or> (site \<noteq> None \<and> c_website r = site))"

definition upsertCompany ::
  "database \<Rightarrow> js_value \<Rightarrow> js_value \<Rightarrow> company_data option \<Rightarrow> (js_error + int) \<times> database" where
  "upsertCompany db companyName website additionalData =
     (case required_name ''Company name is required'' companyName of
        Inl e \<Rightarrow> (Inl e, db)
      | Inr normalizedName \<Rightarrow>
     (case nonblank website of
        Inl e \<Rightarrow> (Inl e, db)
      | Inr site \<Rightarrow>
     (case d1 db of
        (Some e, db1) \<Rightarrow> (Inl e, db1)
      | (None, db1) \<Rightarrow>
          let existing = find (company_matches normalizedName site) (company_profiles db1) in
     (case updateData site additionalData of
        Inl e \<Rightarrow> (Inl e, db1)
      | Inr v \<Rightarrow>
     (case existing of
        Some r \<Rightarrow>
          if has_fields v
          then (case d1 db1 of
                  (Some e, db2) \<Rightarrow> (Inl e, db2)
                | (None, db2) \<Rightarrow>
                    (Inr (c_id r),
                     db2 \<lparr> company_profiles :=
                             map (\<lambda>x. if c_id x = c_id r then set_company v x else x)
                               (company_profiles db2) \<rparr>))
          else (Inr (c_id r), db1)
      | None \<Rightarrow>
     (case trimmed_or_null website of
        Inl e \<Rightarrow> (Inl e, db1)
      | Inr site' \<Rightarrow>
     (case d1 db1 of
        (Some e, db2) \<Rightarrow> (Inl e, db2)
      | (None, db2) \<Rightarrow>
          let i = next_id (map c_id (company_profiles db2)) in
          (Inr i,
           db2 \<lparr> company_profiles :=
                   company_profiles db2 @ [new_company i normalizedName site' v] \<rparr>))))))))"

text \<open>The lookup of an employee: the name, within the company.\<close>

definition employee_matches :: "string \<Rightarrow> int \<Rightarrow> employee \<Rightarrow> bool" where
  "employee_matches normalizedName companyId r =
     (LOWER (e_employeeName r) = LOWER normalizedName \<and> e_companyId r = Some companyId)"

definition upsertEmployee ::
  "database \<Rightarrow> int \<Rightarrow> js_value \<Rightarrow> js_value \<Rightarrow> js_value \<Rightarrow> (js_error + int) \<times> database" where
  "upsertEmployee db companyId employeeName employeeTitle email =
     (case required_name ''Employee name is required'' employeeName of
        Inl e \<Rightarrow> (Inl e, db)
      | Inr normalizedName \<Rightarrow>
     (case d1 db of
        (Some e, db1) \<Rightarrow> (Inl e, db1)
      | (None, db1) \<Rightarrow>
     (case find (employee_matches normalizedName companyId) (employees db1) of
        Some r \<Rightarrow>
          (case nonblank employeeTitle of
             Inl e \<Rightarrow> (Inl e, db1)
           | Inr title \<Rightarrow>
          (case nonblank email of
             Inl e \<Rightarrow> (Inl e, db1)
           | Inr mail \<Rightarrow>
               if title \<noteq> None \<or> mail \<noteq> None
               then (case d1 db1 of
                       (Some e, db2) \<Rightarrow> (Inl e, db2)
                     | (None, db2) \<Rightarrow>
                         (Inr (e_id r),
                          db2 \<lparr> employees :=
                                  map (\<lambda>x. if e_id x = e_id r
                                            then x \<lparr> e_employeeTitle := set_text title (e_employeeTitle x),
                                                     e_email := set_text mail (e_email x) \<rparr>
                                            else x)
                                    (employees db2) \<rparr>))
               else (Inr (e_id r), db1)))
      | None \<Rightarrow>
          (case trimmed_or_null employeeTitle of
             Inl e \<Rightarrow> (Inl e, db1)
           | Inr title \<Rightarrow>
          (case trimmed_or_null email of
             Inl e \<Rightarrow> (Inl e, db1)
           | Inr mail \<Rightarrow>
          (case d1 db1 of
             (Some e, db2) \<Rightarrow> (Inl e, db2)
           | (None, db2) \<Rightarrow>
               let i = next_id (map e_id (employees db2)) in
               (Inr i,
                db2 \<lparr> employees :=
                        employees db2 @
                        [\<lparr> e_id = i, e_employeeName = normalizedName, e_employeeTitle = title,
                           e_email = mail, e_companyId = Some companyId \<rparr>] \<rparr>)))))))"

section \<open>What an upsert may do to a stored row\<close>




definition example_database :: database where
  "example_database =
     \<lparr> company_profiles =
         [\<lparr> c_id = 1, c_companyName = ''Acme'', c_website = Some ''https://acme.io'',
            c_yearFounded = Some (Num 1999), c_description = Some ''Anvils'',
            c_techStack = None, c_employeeCountMin = None, c_employeeCountMax = None,
            c_revenue = None, c_funding = None, c_headquarters = None, c_industry = None \<rparr>],
       employees =
         [\<lparr> e_id = 1, e_employeeName = ''Ada Lovelace'', e_employeeTitle = Some ''CTO'',
            e_email = Some ''ada@acme.io'', e_companyId = Some 1 \<rparr>],
       statements = 0,
       failing = (\<lambda>k. False) \<rparr>"

text \<open>The data of a company whose year is not a number.\<close>

definition example_nan_data :: company_data where
  "example_nan_data = no_data \<lparr> d_yearFounded := Given NaN \<rparr>"

section \<open>agents/orchestrator.ts\<close>

text \<open>
  What the agents call and do not define: \<open>generateText\<close> as a function of the values
  interpolated into the prompt, returning \<open>result.text\<close> or throwing (the tool calls of
  the model happen inside it); \<open>JSON.parse\<close>; \<open>parseInt(String(v))\<close>; \<open>extractDomain\<close>
  and \<open>normalizeUrl\<close> of \<open>lib/utils\<close>; the validation \<open>PeopleSchema.parse\<close>;
  \<open>verifyEmail\<close> called with a value that is not a string; \<open>JSON.stringify\<close>; and
  \<open>this.state\<close>.
\<close>

record agent_services = email_finder_services +
  generateText :: "string list \<Rightarrow> js_error + string"
  JSON_parse :: "string \<Rightarrow> js_error + js_value"
  parseInt_String :: "js_value \<Rightarrow> js_number"
  extractDomain :: "js_value \<Rightarrow> js_error + string option"
  normalizeUrl :: "string option \<Rightarrow> js_error + string option"
  PeopleSchema_parse :: "js_value \<Rightarrow> js_error + js_value"
  verifyEmail_of_value :: "js_value \<Rightarrow> js_error + string"
  JSON_stringify :: "js_value \<Rightarrow> string"
  agent_state :: js_value

record agent_response =
  res_status :: nat
  res_body :: js_value

text \<open>\<open>obj.key = v\<close> and a later property of an object literal: an own property keeps its
  place, a new one is added at the end.\<close>

definition set_prop :: "string \<Rightarrow> js_value \<Rightarrow> (string \<times> js_value) list \<Rightarrow> (string \<times> js_value) list" where
  "set_prop k v kvs =
     (if k \<in> fst ` set kvs then map (\<lambda>(k', v'). if k' = k then (k, v) else (k', v')) kvs
      else kvs @ [(k, v)])"

text \<open>The property of a value that is known not to be null or undefined.\<close>

definition field :: "js_value \<Rightarrow> string \<Rightarrow> js_value" where
  "field v key = (case get_prop v key of Inr x \<Rightarrow> x | Inl e \<Rightarrow> JUndefined)"

text \<open>\<open>person.emails && Array.isArray(person.emails) && person.emails.length > 0\<close>; reading
  \<open>emails\<close> of a person that is null throws.\<close>

definition has_emails :: "js_value \<Rightarrow> js_error + bool" where
  "has_emails person =
     and_then (get_prop person ''emails'')
       (\<lambda>emails. Inr (case emails of JArray es \<Rightarrow> length es > 0 | _ \<Rightarrow> False))"

fun filter_people :: "js_value list \<Rightarrow> js_error + js_value list" where
  "filter_people [] = Inr []"
| "filter_people (person # rest) =
     and_then (has_emails person) (\<lambda>keep.
     and_then (filter_people rest) (\<lambda>kept.
       Inr (if keep then person # kept else kept)))"

text \<open>The first statement of the save: \<open>finalResult.people\<close> is replaced by the filtered
  array when it is an array.\<close>

definition with_filtered_people :: "js_value \<Rightarrow> js_error + js_value" where
  "with_filtered_people finalResult =
     and_then (get_prop finalResult ''people'') (\<lambda>people.
       case (finalResult, people) of
         (JObject kvs, JArray persons) \<Rightarrow>
           and_then (filter_people persons) (\<lambda>kept.
             Inr (JObject (set_prop ''people'' (JArray kept) kvs)))
       | _ \<Rightarrow> Inr finalResult)"

text \<open>\<open>!finalResult.people?.length\<close>.\<close>

definition no_people :: "js_value \<Rightarrow> bool" where
  "no_people finalResult =
     (let people = field finalResult ''people'' in
      if people = JUndefined \<or> people = JNull then True
      else \<not> truthy (field people ''length''))"

text \<open>\<open>a || b ? parseInt(String(a || b)) : null\<close>.\<close>

definition parsed_number :: "agent_services \<Rightarrow> js_value \<Rightarrow> js_value \<Rightarrow> js_number optional" where
  "parsed_number w a b =
     (if truthy (js_or a b) then Given (parseInt_String w (js_or a b)) else IsNull)"

definition companyData :: "agent_services \<Rightarrow> js_value \<Rightarrow> company_data" where
  "companyData w finalResult =
     \<lparr> d_description = js_or (field finalResult ''description'') JNull,
       d_techStack = js_or (js_or (field finalResult ''techStack'') (field finalResult ''tech_stack'')) JNull,
       d_industry = js_or (field finalResult ''industry'') JNull,
       d_yearFounded =
         parsed_number w (field finalResult ''yearFounded'') (field finalResult ''year_founded''),
       d_headquarters = js_or (field finalResult ''headquarters'') JNull,
       d_revenue = js_or (field finalResult ''revenue'') JNull,
       d_funding = js_or (field finalResult ''funding'') JNull,
       d_employeeCountMin =
         parsed_number w (field finalResult ''employeeCountMin'') (field finalResult ''employee_count_min''),
       d_employeeCountMax =
         parsed_number w (field finalResult ''employeeCountMax'') (field finalResult ''employee_count_max'') \<rparr>"

text \<open>
  \<open>person.name && person.emails && person.emails.length > 0\<close>. The comparison is only
  reached with the length of an array or of a string, which is a number.
\<close>

definition to_save :: "js_value \<Rightarrow> js_error + bool" where
  "to_save person =
     and_then (get_prop person ''name'') (\<lambda>name.
       if \<not> truthy name then Inr False
       else and_then (get_prop person ''emails'') (\<lambda>emails.
         if \<not> truthy emails then Inr False
         else and_then (get_prop emails ''length'') (\<lambda>len.
           Inr (case len of JNumber (Num k) \<Rightarrow> k > 0 | _ \<Rightarrow> False))))"

text \<open>\<open>person.emails[0]\<close>.\<close>

definition first_email :: "js_value \<Rightarrow> js_value" where
  "first_email person =
     (case field person ''emails'' of
        JArray (e # es) \<Rightarrow> e
      | JString (c # cs) \<Rightarrow> JString [c]
      | _ \<Rightarrow> JUndefined)"

text \<open>The \<open>for (const person of finalResult.people)\<close> loop: the first throw ends it.\<close>

fun save_people :: "database \<Rightarrow> int \<Rightarrow> js_value list \<Rightarrow> js_error option \<times> database" where
  "save_people db companyId [] = (None, db)"
| "save_people db companyId (person # rest) =
     (case to_save person of
        Inl e \<Rightarrow> (Some e, db)
      | Inr False \<Rightarrow> save_people db companyId rest
      | Inr True \<Rightarrow>
          (case upsertEmployee db companyId (field person ''name'')
                  (js_or (field person ''role'') JNull) (first_email person) of
             (Inl e, db') \<Rightarrow> (Some e, db')
           | (Inr employeeId, db') \<Rightarrow> save_people db' companyId rest))"

text \<open>What \<open>for ... of\<close> iterates over: the elements of an array, the characters of a
  string; any other value of the model is not iterable.\<close>

definition iterate :: "js_value \<Rightarrow> js_error + js_value list" where
  "iterate v =
     (case v of
        JArray xs \<Rightarrow> Inr xs
      | JString s \<Rightarrow> Inr (map (\<lambda>c. JString [c]) s)
      | _ \<Rightarrow> Inl (TypeError ''is not iterable''))"

text \<open>The body of the inner \<open>try\<close>: the error it returns is the one the \<open>catch\<close> logs.\<close>

definition save_to_database ::
  "agent_services \<Rightarrow> database \<Rightarrow> js_value \<Rightarrow> js_error option \<times> database" where
  "save_to_database w db finalResult =
     (let companyName = js_or (field finalResult ''company'') (JString []);
          website = js_or (field finalResult ''website'') JNull
      in case nonblank companyName of
           Inl e \<Rightarrow> (Some e, db)
         | Inr None \<Rightarrow> (None, db)
         | Inr (Some trimmed) \<Rightarrow>
             (case upsertCompany db companyName website (Some (companyData w finalResult)) of
                (Inl e, db') \<Rightarrow> (Some e, db')
              | (Inr companyId, db') \<Rightarrow>
                  (case iterate (field finalResult ''people'') of
                     Inl e \<Rightarrow> (Some e, db')
                   | Inr persons \<Rightarrow> save_people db' companyId persons)))"


definition parsing_error :: agent_response where
  "parsing_error =
     \<lparr> res_status = 500, res_body = JObject [(''error'', JString ''parsing error'')] \<rparr>"

definition no_emails_found :: "agent_services \<Rightarrow> agent_response" where
  "no_emails_found w =
     \<lparr> res_status = 200,
       res_body = JObject [(''message'', JString ''no emails found''), (''state'', agent_state w)] \<rparr>"

text \<open>The favicon and the final response, after the outer \<open>try\<close>.\<close>

definition final_response :: "agent_services \<Rightarrow> js_value \<Rightarrow> js_error + agent_response" where
  "final_response w finalResult =
     and_then
       (if truthy (field finalResult ''website'')
        then and_then (extractDomain w (field finalResult ''website'')) (\<lambda>domain.
               Inr (case domain of
                      Some d \<Rightarrow>
                        if d = [] then JNull
                        else JString (''https://www.google.com/s2/favicons?domain='' @ d @ ''&sz=128'')
                    | None \<Rightarrow> JNull))
        else Inr JNull)
       (\<lambda>favicon.
          Inr \<lparr> res_status = 200,
                res_body =
                  JObject (set_prop ''state'' (agent_state w)
                    (set_prop ''favicon'' favicon
                      (case finalResult of JObject kvs \<Rightarrow> kvs | _ \<Rightarrow> []))) \<rparr>)"

definition Orchestrator_onRequest ::
  "agent_services \<Rightarrow> database \<Rightarrow> string option \<Rightarrow>
   (js_error + agent_response) \<times> database \<times> event list" where
  "Orchestrator_onRequest w db query_field =
     (let query = or_else query_field [] in
      if query = []
      then (Inr \<lparr> res_status = 400,
                  res_body = JObject [(''error'', JString ''query is required'')] \<rparr>, db, [])
      else
        case generateText w [query] of
          Inl e \<Rightarrow> (Inl e, db, [ModelCall])
        | Inr text \<Rightarrow>
            (case and_then (JSON_parse w (cleanText text)) with_filtered_people of
               Inl e \<Rightarrow> (Inr parsing_error, db, [ModelCall])
             | Inr finalResult \<Rightarrow>
                 if no_people finalResult
                 then (Inr (no_emails_found w), db, [ModelCall])
                 else
                   (case save_to_database w db finalResult of
                      (Some dbError, db') \<Rightarrow>
                        (final_response w finalResult, db',
                         [ModelCall, Log ''Error saving to database:''])
                    | (None, db') \<Rightarrow> (final_response w finalResult, db', [ModelCall]))))"

section \<open>When the save of the Orchestrator completes, and what it stores\<close>



text \<open>No statement that the database executes from now on throws.\<close>

definition never_fails :: "database \<Rightarrow> bool" where
  "never_fails db = (\<forall>k. statements db \<le> k \<longrightarrow> \<not> failing db k)"











section \<open>Example model outputs for the Orchestrator\<close>

definition example_person :: "string \<Rightarrow> string list \<Rightarrow> js_value" where
  "example_person name emails =
     JObject [(''name'', JString name), (''role'', JString ''CEO''),
              (''emails'', JArray (map JString emails))]"

text \<open>A parsed result with three people: one without emails, one whose name is blank,
  and one with two emails.\<close>

definition example_result :: js_value where
  "example_result =
     JObject [(''company'', JString ''Acme''),
              (''website'', JString ''https://acme.io''),
              (''people'',
                 JArray [example_person ''Eve'' [],
                         example_person '' '' [''x@acme.io''],
                         example_person ''Bob'' [''bob@acme.io'', ''b@acme.io'']])]"

definition example_result_ok :: js_value where
  "example_result_ok =
     JObject [(''company'', JString ''Acme''),
              (''people'',
                 JArray [example_person ''Eve'' [],
                         example_person ''Bob'' [''bob@acme.io'', ''b@acme.io'']])]"

text \<open>A parsed result whose \<open>yearFounded\<close> is the text \<open>unknown\<close>.\<close>

definition example_result_unknown_year :: js_value where
  "example_result_unknown_year =
     JObject [(''company'', JString ''Acme''),
              (''yearFounded'', JString ''unknown''),
              (''people'', JArray [example_person ''Bob'' [''bob@acme.io'']])]"

text \<open>A parsed result that names a stored employee in another case of letters, with new
  emails, and a person that is not stored; the first person has no emails.\<close>

definition example_saved_people :: "js_value list" where
  "example_saved_people =
     [example_person ''ada lovelace '' [''ada.l@acme.io'', ''x@acme.io''],
      example_person ''Bob'' [''bob@acme.io'', ''b@acme.io'']]"

definition example_result_update :: js_value where
  "example_result_update =
     JObject [(''company'', JString '' Acme ''),
              (''website'', JString ''https://acme.io''),
              (''description'', JString '' Anvils and more ''),
              (''people'', JArray (example_person ''Eve'' [] # example_saved_people))]"


text \<open>A parsed result whose first person has a number as role.\<close>

definition example_result_numeric_role :: js_value where
  "example_result_numeric_role =
     JObject [(''company'', JString ''Acme''),
              (''people'',
                 JArray [JObject [(''name'', JString ''Zed''), (''role'', JNumber (Num 7)),
                                  (''emails'', JArray [JString ''zed@acme.io''])],
                         example_person ''Bob'' [''bob@acme.io'', ''b@acme.io'']])]"

definition example_result_empty :: js_value where
  "example_result_empty =
     JObject [(''company'', JString ''Acme''),
              (''people'', JArray [example_person ''Eve'' []])]"

text \<open>Services for the examples: the model answers with a text that names the case, and
  \<open>JSON.parse\<close> is given on the texts of the examples only.\<close>

definition example_agent_services :: agent_services where
  "example_agent_services =
     \<lparr> exa_searchAndContents = (\<lambda>q n. Inl (Error ''offline'')),
       generateObject = (\<lambda>n d c. Inl (Error ''offline'')),
       verifyEmail = (\<lambda>e. Inr ''valid''),
       generateText = (\<lambda>prompt. Inr (''```json '' @ concat prompt @ '' ```'')),
       JSON_parse = (\<lambda>s. if s = ''{blank name}'' then Inr example_result
                          else if s = ''{ok}'' then Inr example_result_ok
                          else if s = ''{nobody}'' then Inr example_result_empty
                          else if s = ''{unknown year}'' then Inr example_result_unknown_year
                          else if s = ''{update}'' then Inr example_result_update
                          else if s = ''{numeric role}'' then Inr example_result_numeric_role
                          else if s = ''[four emails]''
                            then Inr (JArray [JString ''u1@acme.io'', JString ''u2@acme.io'',
                                              JString ''u3@acme.io'', JString ''u4@acme.io''])
                          else Inl (Error ''SyntaxError'')),
       parseInt_String = (\<lambda>v. case v of JNumber n \<Rightarrow> n | _ \<Rightarrow> NaN),
       extractDomain = (\<lambda>v. Inr None),
       normalizeUrl = (\<lambda>u. Inr u),
       PeopleSchema_parse = (\<lambda>v. Inr v),
       verifyEmail_of_value = (\<lambda>v. Inl (TypeError ''not a string'')),
       JSON_stringify = (\<lambda>v. ''[]''),
       agent_state = JNull \<rparr>"


section \<open>agents/peoplefinder.ts and agents/emailfinder.ts: the cache in the companies table\<close>

text \<open>
  A row of the table \<open>companies\<close>, which both agents query with raw SQL, and the database
  seen through it: the rows, the number of statements run so far, and the statements at
  which D1 throws.
\<close>

record companies_row =
  r_id :: int
  r_company_name :: string
  r_website :: "string option"
  r_employee_name :: string
  r_employee_title :: "string option"
  r_email :: string

record companies_database =
  companies_table :: "companies_row list"
  queries :: nat
  unavailable :: "nat \<Rightarrow> bool"

definition run_query :: "companies_database \<Rightarrow> js_error option \<times> companies_database" where
  "run_query db =
     (if unavailable db (queries db) then Some (Error ''D1_ERROR'') else None,
      db \<lparr> queries := Suc (queries db) \<rparr>)"

text \<open>The fields of the request bodies; a field may be missing.\<close>

record people_request =
  pr_company :: "string option"
  pr_website :: "string option"
  pr_notes :: "string option"

record email_request =
  er_firstName :: "string option"
  er_lastName :: "string option"
  er_company :: "string option"
  er_domain :: "string option"
  er_company_name :: "string option"
  er_role :: "string option"

definition ok_response :: "js_value \<Rightarrow> agent_response" where
  "ok_response b = \<lparr> res_status = 200, res_body = b \<rparr>"

text \<open>
  \<open>checkPeopleInDB\<close>: the distinct \<open>(company_name, website, employee_name,
  employee_title)\<close> of the rows whose company name is the given one up to the case of
  letters, in table order. Any throw inside gives null.
\<close>

definition people_rows :: "string \<Rightarrow> companies_row list \<Rightarrow> (string \<times> string option \<times> string \<times> string option) list" where
  "people_rows companyName rows =
     new_Set (map (\<lambda>r. (r_company_name r, r_website r, r_employee_name r, r_employee_title r))
       (filter (\<lambda>r. LOWER (r_company_name r) = LOWER companyName) rows))"

definition checkPeopleInDB ::
  "agent_services \<Rightarrow> companies_database \<Rightarrow> string \<Rightarrow> js_value option \<times> companies_database" where
  "checkPeopleInDB w db companyName =
     (case run_query db of
        (Some e, db') \<Rightarrow> (None, db')
      | (None, db') \<Rightarrow>
          (case people_rows companyName (companies_table db') of
             [] \<Rightarrow> (None, db')
           | (company_name, site, employee_name, employee_title) # others \<Rightarrow>
               (case normalizeUrl w site of
                  Inl e \<Rightarrow> (None, db')
                | Inr url \<Rightarrow>
                    (Some (JObject
                       [(''company'', JString company_name),
                        (''website'', JString (or_empty url)),
                        (''people'',
                           JArray (map (\<lambda>(c, s, name, title).
                                     JObject [(''name'', JString name),
                                              (''role'', JString (or_empty title))])
                                   ((company_name, site, employee_name, employee_title) # others)))]),
                     db'))))"

definition searchSnippets :: "search_result list \<Rightarrow> string" where
  "searchSnippets results =
     join [CHR 10]
       (map (\<lambda>r. [CHR 10] @ ''          source url: '' @ sr_url r @ [CHR 10] @
                  ''          content: '' @ sr_content r @ [CHR 10] @ ''          ---'')
          results)"

definition research_failed :: "agent_services \<Rightarrow> string \<Rightarrow> string \<Rightarrow> js_error \<Rightarrow> agent_response" where
  "research_failed w company site error =
     \<lparr> res_status = 500,
       res_body = JObject
         [(''company'', JString company), (''website'', JString site), (''people'', JArray []),
          (''error'', JString ''Failed to complete research''),
          (''errorMessage'', JString (message error)),
          (''state'', agent_state w)] \<rparr>"

text \<open>The \<open>try\<close> block of \<open>PeopleFinder.onRequest\<close>: the search, the model call and the
  extraction; what it throws is answered by the \<open>catch\<close> with status 500.\<close>

definition research ::
  "agent_services \<Rightarrow> tool_env \<Rightarrow> string \<Rightarrow> string \<Rightarrow> string \<Rightarrow>
   (js_error + agent_response) \<times> event list" where
  "research w env company site notes =
     (let searchQuery = ''\"'' @ company @ ''\" founder ceo \"c-suite\" leadership team site:'' @
                        (if site = [] then ''*'' else site)
      in case searchWeb_execute (exa_searchAndContents w) env searchQuery of
           (Inl e, tr) \<Rightarrow> (Inl e, tr)
         | (Inr results, tr) \<Rightarrow>
             if searchSnippets results = []
             then (Inr (ok_response (JObject
                     [(''company'', JString company), (''website'', JString site),
                      (''people'', JArray []), (''error'', JString ''No search results found''),
                      (''state'', agent_state w)])), tr)
             else
               (case generateText w [company, notes, searchSnippets results] of
                  Inl e \<Rightarrow> (Inl e, tr @ [ModelCall])
                | Inr text \<Rightarrow>
                    (case and_then (JSON_parse w (cleanText text)) (PeopleSchema_parse w) of
                       Inl e \<Rightarrow>
                         (Inl (Error (''Failed to extract structured data: '' @ message e)),
                          tr @ [ModelCall, Log ''Failed to parse or validate JSON:''])
                     | Inr extractedData \<Rightarrow>
                         (Inr (ok_response (JObject
                            [(''company'', field extractedData ''company''),
                             (''website'',
                                js_or (js_or (field extractedData ''website'') (JString site))
                                  (JString [])),
                             (''people'', field extractedData ''people''),
                             (''state'', agent_state w)])),
                          tr @ [ModelCall]))))"

definition PeopleFinder_onRequest ::
  "agent_services \<Rightarrow> tool_env \<Rightarrow> companies_database \<Rightarrow> people_request \<Rightarrow>
   agent_response \<times> companies_database \<times> event list" where
  "PeopleFinder_onRequest w env db request =
     (let company = or_else (pr_company request) [];
          site = or_else (pr_website request) [];
          notes = or_else (pr_notes request) []
      in if company = []
         then (\<lparr> res_status = 400,
                  res_body = JObject [(''error'', JString ''Company name is required'')] \<rparr>,
               db, [])
         else
           case checkPeopleInDB w db company of
             (Some existingPeople, db') \<Rightarrow>
               (ok_response
                  (JObject (set_prop ''state'' (agent_state w)
                     (case existingPeople of JObject kvs \<Rightarrow> kvs | _ \<Rightarrow> []))),
                db', [DbRead])
           | (None, db') \<Rightarrow>
               (case research w env company site notes of
                  (Inr response, tr) \<Rightarrow> (response, db', DbRead # tr)
                | (Inl error, tr) \<Rightarrow>
                    (research_failed w company site error, db',
                     DbRead # tr @ [Log ''Search tool error:''])))"

text \<open>
  \<open>checkEmailsInDB\<close>: the first row whose employee name is the given one up to the case
  of letters; its \<open>email\<close> column is a JSON array of emails, or else a single email. At
  most three emails are returned, all of them reported as verified. Any throw inside
  gives null.
\<close>

definition stored_emails :: "agent_services \<Rightarrow> string \<Rightarrow> js_value list" where
  "stored_emails w email =
     (case JSON_parse w email of
        Inr (JArray emails) \<Rightarrow> emails
      | _ \<Rightarrow> [JString email])"

definition checkEmailsInDB ::
  "agent_services \<Rightarrow> companies_database \<Rightarrow> string \<Rightarrow> js_value option \<times> companies_database" where
  "checkEmailsInDB w db employeeName =
     (case run_query db of
        (Some e, db') \<Rightarrow> (None, db')
      | (None, db') \<Rightarrow>
          (case find (\<lambda>r. LOWER (r_employee_name r) = LOWER employeeName) (companies_table db') of
             None \<Rightarrow> (None, db')
           | Some result \<Rightarrow>
               let emails = take 3 (stored_emails w (r_email result)) in
               (case normalizeUrl w (r_website result) of
                  Inl e \<Rightarrow> (None, db')
                | Inr url \<Rightarrow>
                    (Some (JObject
                       [(''emails'', JArray emails),
                        (''company_name'', JString (r_company_name result)),
                        (''website'', JString (or_empty url)),
                        (''employee_name'', JString employeeName),
                        (''employee_title'', JString (or_empty (r_employee_title result))),
                        (''verification_summary'',
                           JString (string_of_nat (length emails) @ '' out of '' @
                                    string_of_nat (length emails) @ '' emails verified''))]),
                     db'))))"

text \<open>The result of the model call as the agent reads it: the parsed object when it has
  an \<open>emails\<close> array, and otherwise the fallback with no emails.\<close>

definition emailResult_of :: "agent_services \<Rightarrow> string \<Rightarrow> js_value" where
  "emailResult_of w text =
     (let fallback = (\<lambda>msg. JObject [(''emails'', JArray []), (''employee_title'', JString []),
                                     (''error'', JString msg), (''rawText'', JString text)])
      in if text = [] \<or> trim text = [] then fallback ''Empty response from AI model''
         else if cleanText text = [] \<or> trim (cleanText text) = []
         then fallback ''No valid JSON found in response''
         else case JSON_parse w (cleanText text) of
                Inl e \<Rightarrow> fallback (message e)
              | Inr v \<Rightarrow>
                  (case get_prop v ''emails'' of
                     Inl e \<Rightarrow> fallback (message e)
                   | Inr emails \<Rightarrow>
                       if \<not> truthy emails \<or> \<not> isArray emails
                       then fallback ''Invalid JSON structure: missing emails array''
                       else v))"

definition emails_of :: "js_value \<Rightarrow> js_value list" where
  "emails_of emailResult = (case field emailResult ''emails'' of JArray es \<Rightarrow> es | _ \<Rightarrow> [])"

text \<open>One verification of the agent: the email is kept when the status is \<open>valid\<close> and the
  email is not null; a throw gives null.\<close>

definition verified_or_null :: "agent_services \<Rightarrow> js_value \<Rightarrow> js_value option" where
  "verified_or_null w email =
     (case (case email of JString s \<Rightarrow> verifyEmail w s | _ \<Rightarrow> verifyEmail_of_value w email) of
        Inl e \<Rightarrow> None
      | Inr verdict \<Rightarrow> if verdict = ''valid'' \<and> email \<noteq> JNull then Some email else None)"

definition email_text :: "js_value \<Rightarrow> string" where
  "email_text email = (case email of JString s \<Rightarrow> s | _ \<Rightarrow> [])"

text \<open>\<open>a && a.trim() !== "" ? a.trim() : (role && role.trim() !== "" ? role.trim() : "")\<close>.\<close>

definition title_or_role :: "js_value \<Rightarrow> string \<Rightarrow> js_error + string" where
  "title_or_role employee_title role =
     and_then (nonblank employee_title)
       (\<lambda>t. Inr (case t of Some title \<Rightarrow> title | None \<Rightarrow> trim role))"

text \<open>The save of the verified emails: the body of the \<open>try\<close>; the error it returns is
  the one the \<open>catch\<close> logs. Emails are compared as values when they are merged.\<close>

definition save_emails ::
  "agent_services \<Rightarrow> companies_database \<Rightarrow> js_value \<Rightarrow> js_value list \<Rightarrow>
   string \<Rightarrow> string \<Rightarrow> string \<Rightarrow> string \<Rightarrow> js_error option \<times> companies_database" where
  "save_emails w db emailResult verifiedEmails role domain companyName employeeName =
     (case title_or_role (field emailResult ''employee_title'') role of
        Inl e \<Rightarrow> (Some e, db)
      | Inr discoveredTitle \<Rightarrow>
          let websiteValue = (if trim domain \<noteq> [] then Some domain else None);
              companyNameValue = (if trim companyName \<noteq> [] then companyName else ''Unknown'');
              employeeNameValue = (if trim employeeName \<noteq> [] then employeeName else ''Unknown'')
          in case run_query db of
               (Some e, db1) \<Rightarrow> (Some e, db1)
             | (None, db1) \<Rightarrow>
                 (case find (\<lambda>r. LOWER (r_employee_name r) = LOWER employeeNameValue)
                         (companies_table db1) of
                    Some existing \<Rightarrow>
                      let mergedEmails = new_Set (stored_emails w (r_email existing) @ verifiedEmails);
                          emailsJson = JSON_stringify w (JArray mergedEmails)
                      in (case run_query db1 of
                            (Some e, db2) \<Rightarrow> (Some e, db2)
                          | (None, db2) \<Rightarrow>
                              (None,
                               db2 \<lparr> companies_table :=
                                 map (\<lambda>r. if r_id r = r_id existing
                                           then r \<lparr> r_company_name := companyNameValue,
                                                    r_website := websiteValue,
                                                    r_employee_name := employeeNameValue,
                                                    r_employee_title := Some discoveredTitle,
                                                    r_email := emailsJson \<rparr>
                                           else r)
                                   (companies_table db2) \<rparr>))
                  | None \<Rightarrow>
                      let emailsJson = JSON_stringify w (JArray verifiedEmails) in
                      (case run_query db1 of
                         (Some e, db2) \<Rightarrow> (Some e, db2)
                       | (None, db2) \<Rightarrow>
                           (None,
                            db2 \<lparr> companies_table :=
                              companies_table db2 @
                              [\<lparr> r_id = next_id (map r_id (companies_table db2)),
                                 r_company_name = companyNameValue, r_website = websiteValue,
                                 r_employee_name = employeeNameValue,
                                 r_employee_title = Some discoveredTitle,
                                 r_email = emailsJson \<rparr>] \<rparr>))))"

text \<open>The part of \<open>EmailFinder.onRequest\<close> behind the cache: the model call, the
  verification, the save and the response.\<close>

definition find_emails ::
  "agent_services \<Rightarrow> companies_database \<Rightarrow> string \<Rightarrow> string \<Rightarrow> string \<Rightarrow> string \<Rightarrow>
   string \<Rightarrow> string \<Rightarrow> string \<Rightarrow>
   (js_error + agent_response) \<times> companies_database \<times> event list" where
  "find_emails w db firstName lastName company domain companyName role employeeName =
     (case generateText w [firstName, lastName, company, domain] of
        Inl e \<Rightarrow> (Inl e, db, [ModelCall])
      | Inr text \<Rightarrow>
          let emailResult = emailResult_of w text;
              candidates = emails_of emailResult;
              verifiedEmails = List.map_filter (verified_or_null w) candidates;
              tr = ModelCall # map (\<lambda>e. EmailVerification (email_text e)) candidates;
              (saved, db') =
                (if length verifiedEmails > 0
                 then (case save_emails w db emailResult verifiedEmails role domain companyName
                              employeeName of
                         (Some dbError, db') \<Rightarrow> ([Log ''Error saving to companies DB:''], db')
                       | (None, db') \<Rightarrow> ([], db'))
                 else ([], db))
          in case title_or_role (field emailResult ''employee_title'') role of
               Inl e \<Rightarrow> (Inl e, db', tr @ saved)
             | Inr finalEmployeeTitle \<Rightarrow>
                 let limitedEmails = take 3 verifiedEmails in
                 (Inr (ok_response (JObject
                    [(''emails'', JArray limitedEmails),
                     (''company_name'', JString companyName),
                     (''website'', JString domain),
                     (''employee_name'', JString employeeName),
                     (''employee_title'', JString finalEmployeeTitle),
                     (''verification_summary'',
                        JString (string_of_nat (length limitedEmails) @ '' out of '' @
                                 string_of_nat (length candidates) @ '' emails verified'')),
                     (''state'', agent_state w)])),
                  db', tr @ saved))"

definition EmailFinder_onRequest ::
  "agent_services \<Rightarrow> companies_database \<Rightarrow> email_request \<Rightarrow>
   (js_error + agent_response) \<times> companies_database \<times> event list" where
  "EmailFinder_onRequest w db request =
     (let firstName = or_else (er_firstName request) [];
          lastName = or_else (er_lastName request) [];
          company = or_else (er_company request) [];
          domain = or_else (er_domain request) [];
          companyName = or_else (er_company_name request) company;
          role = or_else (er_role request) [];
          employeeName = trim (firstName @ '' '' @ lastName)
      in if employeeName \<noteq> [] \<and> employeeName \<noteq> ''Unknown''
         then (case checkEmailsInDB w db employeeName of
                 (Some existingEmails, db') \<Rightarrow>
                   (Inr (ok_response
                      (JObject (set_prop ''state'' (agent_state w)
                         (case existingEmails of JObject kvs \<Rightarrow> kvs | _ \<Rightarrow> [])))),
                    db', [DbRead])
               | (None, db') \<Rightarrow>
                   (case find_emails w db' firstName lastName company domain companyName role
                           employeeName of
                      (response, db'', tr) \<Rightarrow> (response, db'', DbRead # tr)))
         else find_emails w db firstName lastName company domain companyName role employeeName)"

text \<open>A stored row of an employee whose name is \<open>Unknown\<close>, the name the EmailFinder itself
  stores for a request without a name, and one of a named employee with four emails.\<close>

definition example_companies_database :: companies_database where
  "example_companies_database =
     \<lparr> companies_table =
         [\<lparr> r_id = 1, r_company_name = ''Acme'', r_website = Some ''acme.io'',
            r_employee_name = ''Unknown'', r_employee_title = Some ''CEO'',
            r_email = ''[four emails]'' \<rparr>,
          \<lparr> r_id = 2, r_company_name = ''Acme'', r_website = Some ''acme.io'',
            r_employee_name = ''Ada Lovelace'', r_employee_title = None,
            r_email = ''[four emails]'' \<rparr>],
       queries = 0,
       unavailable = (\<lambda>k. False) \<rparr>"

definition request_for :: "string \<Rightarrow> string \<Rightarrow> email_request" where
  "request_for firstName lastName =
     \<lparr> er_firstName = Some firstName, er_lastName = Some lastName, er_company = Some ''Acme'',
       er_domain = Some ''acme.io'', er_company_name = None, er_role = None \<rparr>"

section \<open>Example inputs of the tools and routes\<close>

text \<open>Concrete services for the examples: one candidate is listed twice, one is invalid.\<close>

definition example_email_services :: email_finder_services where
  "example_email_services =
     \<lparr> exa_searchAndContents = (\<lambda>q n. Inl (Error ''offline'')),
       generateObject = (\<lambda>n d c.
         Inr \<lparr> ex_emails = [''ada@acme.io'', ''a.l@acme.io'', ''ada@acme.io''],
                ex_employee_title = ''CTO'' \<rparr>),
       verifyEmail = (\<lambda>e. if e = ''ada@acme.io'' then Inr ''valid'' else Inr ''invalid'') \<rparr>"

definition example_tool_env :: tool_env where
  "example_tool_env = \<lparr> EXA_API_KEY = Some ''k1'', OPENAI_API_KEY = Some ''k2'' \<rparr>"

definition example_email_input :: email_finder_input where
  "example_email_input = \<lparr> in_name = ''Ada'', in_domain = ''acme.io'', in_company = None \<rparr>"

definition example_exa :: exa_client where
  "example_exa q n =
     (if q = ''down'' then Inl (Error ''503'')
      else Inr (take n
        [\<lparr> hit_title = None, hit_url = ''https://a.example'', hit_text = ''alpha'' \<rparr>,
         \<lparr> hit_title = Some ''Beta'', hit_url = ''https://b.example'', hit_text = ''beta'' \<rparr>]))"

text \<open>A search service that returns four hits whatever \<open>numResults\<close> asks for.\<close>

definition example_exa_four_hits :: exa_client where
  "example_exa_four_hits q n =
     Inr [\<lparr> hit_title = Some ''One'', hit_url = ''https://1.example'', hit_text = ''one'' \<rparr>,
          \<lparr> hit_title = Some ''Two'', hit_url = ''https://2.example'', hit_text = ''two'' \<rparr>,
          \<lparr> hit_title = Some ''Three'', hit_url = ''https://3.example'', hit_text = ''three'' \<rparr>,
          \<lparr> hit_title = None, hit_url = ''https://4.example'', hit_text = ''four'' \<rparr>]"

definition example_companies :: "company_profile list" where
  "example_companies =
     [\<lparr> c_id = 1, c_companyName = ''Acme'', c_website = None, c_yearFounded = None,
        c_description = Some ''Anvils'', c_techStack = None, c_employeeCountMin = None,
        c_employeeCountMax = None, c_revenue = None, c_funding = None,
        c_headquarters = None, c_industry = None \<rparr>,
      \<lparr> c_id = 2, c_companyName = ''Globex'', c_website = None, c_yearFounded = None,
        c_description = None, c_techStack = None, c_employeeCountMin = None,
        c_employeeCountMax = None, c_revenue = None, c_funding = None,
        c_headquarters = None, c_industry = None \<rparr>]"

definition example_vectorize_env :: "(nat, nat) vectorize_env" where
  "example_vectorize_env =
     \<lparr> DB_all_companies = Inr example_companies,
       AI_run = (\<lambda>t. Inr (length t)),
       COMPANY_VECTORS_insert = (\<lambda>vs. Inr (length vs)) \<rparr>"

section \<open>Properties of the email finder tool\<close>

lemma set_add_all_set: "set (set_add_all acc xs) = set acc \<union> set xs"
  by (induction xs arbitrary: acc) auto

lemma set_add_all_distinct: "distinct acc \<Longrightarrow> distinct (set_add_all acc xs)"
  by (induction xs arbitrary: acc) auto

lemma new_Set_set: "set (new_Set xs) = set xs"
  by (simp add: new_Set_def set_add_all_set)

lemma new_Set_distinct: "distinct (new_Set xs)"
  by (simp add: new_Set_def set_add_all_distinct)

lemma verify_all_filter:
  "verify_all w us = filter (\<lambda>e. verifyEmail w e = Inr ''valid'') us"
proof -
  have "List.map_filter (\<lambda>x. x) (map (check_email w) us)
        = filter (\<lambda>e. verifyEmail w e = Inr ''valid'') us"
    by (induction us) (auto simp: check_email_def split: sum.splits)
  then show ?thesis
    by (cases us) (simp_all add: verify_all_def)
qed

lemma verification_calls_append:
  "verification_calls (xs @ ys) = verification_calls xs @ verification_calls ys"
  by (simp add: verification_calls_def List.map_filter_def)

lemma verification_calls_searches: "verification_calls (map WebSearch qs) = []"
  by (induction qs) (simp_all add: verification_calls_def)

lemma verification_calls_verifications:
  "verification_calls (map EmailVerification us) = us"
  by (induction us) (simp_all add: verification_calls_def)

text \<open>
  Claim C1. With both API keys present the tool reaches the extraction. When the
  extraction returns, the tool returns (it does not throw), its emails are among the
  extracted candidates that \<open>verifyEmail\<close> classified as \<open>valid\<close>, they are pairwise
  different, there are at most three of them, and \<open>verifyEmail\<close> was called exactly on
  the candidates with duplicates removed, once each. When the extraction throws, the tool
  still returns, with no emails and without verifying anything.
\<close>

theorem emailFinder_emails_verified_unique_at_most_three:
  assumes "\<not> falsy_key (EXA_API_KEY env)" and "\<not> falsy_key (OPENAI_API_KEY env)"
  shows "case generateObject w (in_name i) (in_domain i) (searchContext w i) of
           Inr extracted \<Rightarrow>
             (\<exists>out tr. emailFinder_execute w env i = (Inr out, tr)
                \<and> set (out_emails out)
                    \<subseteq> {e. e \<in> set (ex_emails extracted) \<and> verifyEmail w e = Inr ''valid''}
                \<and> distinct (out_emails out)
                \<and> length (out_emails out) \<le> 3
                \<and> verification_calls tr = new_Set (ex_emails extracted)
                \<and> distinct (verification_calls tr)
                \<and> set (verification_calls tr) = set (ex_emails extracted))
         | Inl err \<Rightarrow>
             (\<exists>out tr. emailFinder_execute w env i = (Inr out, tr)
                \<and> out_emails out = [] \<and> verification_calls tr = [])"
proof (cases "generateObject w (in_name i) (in_domain i) (searchContext w i)")
  case (Inl err)
  with assms show ?thesis
    by (simp add: emailFinder_execute_def Let_def verification_calls_append
        verification_calls_searches, simp add: verification_calls_def)
next
  case (Inr extracted)
  let ?us = "new_Set (ex_emails extracted)"
  have sub: "set (take 3 (verify_all w ?us))
             \<subseteq> {e. e \<in> set (ex_emails extracted) \<and> verifyEmail w e = Inr ''valid''}"
  proof
    fix e assume "e \<in> set (take 3 (verify_all w ?us))"
    then have "e \<in> set (verify_all w ?us)" by (rule in_set_takeD)
    then show "e \<in> {e. e \<in> set (ex_emails extracted) \<and> verifyEmail w e = Inr ''valid''}"
      by (simp add: verify_all_filter new_Set_set)
  qed
  have dist: "distinct (take 3 (verify_all w ?us))"
    by (simp add: verify_all_filter new_Set_distinct)
  have model: "verification_calls [ModelCall] = []"
    by (simp add: verification_calls_def)
  have calls: "verification_calls
      (map WebSearch (email_queries i) @ [ModelCall] @ map EmailVerification ?us) = ?us"
    by (simp only: verification_calls_append verification_calls_searches
        verification_calls_verifications model append_Nil)
  from assms Inr sub dist calls show ?thesis
    by (simp add: emailFinder_execute_def Let_def new_Set_distinct new_Set_set)
qed

theorem emailFinder_emails_verified_unique_at_most_three_witness:
  "\<not> falsy_key (EXA_API_KEY example_tool_env)
   \<and> \<not> falsy_key (OPENAI_API_KEY example_tool_env)
   \<and> (\<exists>tr. emailFinder_execute example_email_services example_tool_env example_email_input
         = (Inr \<lparr> out_name = Some ''Ada'', out_company = Some ''Unknown'',
                  out_domain = Some ''acme.io'', out_employee_title = ''CTO'',
                  out_emails = [''ada@acme.io''],
                  out_verification_summary = ''1 valid out of 2 candidates'' \<rparr>, tr)
        \<and> verification_calls tr = [''ada@acme.io'', ''a.l@acme.io''])"
  using emailFinder_emails_verified_unique_at_most_three
    [of example_tool_env example_email_services example_email_input]
  by (simp add: emailFinder_execute_def example_email_services_def example_tool_env_def
      example_email_input_def falsy_key_def or_else_def new_Set_def verify_all_def
      check_email_def verification_calls_def email_queries_def string_of_nat.simps
      digit_char_def Let_def)

section \<open>Properties of the web search tool\<close>

text \<open>
  Claim C7 as stated does not hold: the tool asks the search for three results and maps
  every hit it gets back, without truncating. With a search service that returns four
  hits the tool returns four entries.
\<close>

theorem searchWeb_four_results_counterexample:
  "\<not> falsy_key (EXA_API_KEY example_tool_env)
   \<and> searchWeb_execute example_exa_four_hits example_tool_env ''acme''
       = (Inr [\<lparr> sr_title = ''One'', sr_url = ''https://1.example'', sr_content = ''one'' \<rparr>,
               \<lparr> sr_title = ''Two'', sr_url = ''https://2.example'', sr_content = ''two'' \<rparr>,
               \<lparr> sr_title = ''Three'', sr_url = ''https://3.example'', sr_content = ''three'' \<rparr>,
               \<lparr> sr_title = ''No title'', sr_url = ''https://4.example'', sr_content = ''four'' \<rparr>],
          [WebSearch ''acme''])
   \<and> \<not> length (case fst (searchWeb_execute example_exa_four_hits example_tool_env ''acme'') of
                   Inr results \<Rightarrow> results | Inl err \<Rightarrow> []) \<le> 3"
  by (simp add: searchWeb_execute_def example_exa_four_hits_def example_tool_env_def
      falsy_key_def to_search_result_def or_else_def)

text \<open>
  Claim C7, amended. The tool throws exactly when \<open>EXA_API_KEY\<close> is missing or empty.
  Otherwise it returns, and what it returns depends on the search service only through the
  answer to the query with \<open>numResults\<close> 3: one entry per hit of that answer, in order
  (hence at most 3 entries whenever the answer has at most 3 hits), each with the hit's
  title (or \<open>No title\<close> when the title is missing or empty), its url and its text; and
  the empty list, with the failure logged, when the search call throws.
\<close>

theorem searchWeb_one_entry_per_hit_and_no_throw:
  "((\<exists>err. fst (searchWeb_execute exa env query) = Inl err) \<longleftrightarrow> falsy_key (EXA_API_KEY env))
   \<and> (\<forall>exa'. exa' query 3 = exa query 3 \<longrightarrow>
         searchWeb_execute exa' env query = searchWeb_execute exa env query)
   \<and> (\<not> falsy_key (EXA_API_KEY env) \<longrightarrow>
        (\<exists>results tr. searchWeb_execute exa env query = (Inr results, tr)
           \<and> (case exa query 3 of
                 Inr hits \<Rightarrow>
                   tr = [WebSearch query]
                   \<and> length results = length hits
                   \<and> (length hits \<le> 3 \<longrightarrow> length results \<le> 3)
                   \<and> (\<forall>k < length hits.
                         sr_title (results ! k)
                           = (if hit_title (hits ! k) = None \<or> hit_title (hits ! k) = Some []
                              then ''No title'' else the (hit_title (hits ! k)))
                         \<and> sr_url (results ! k) = hit_url (hits ! k)
                         \<and> sr_content (results ! k) = hit_text (hits ! k))
               | Inl err \<Rightarrow>
                   results = [] \<and> tr = [WebSearch query, Log ''Search failed:''])))"
proof (cases "exa query 3")
  case (Inl err)
  then show ?thesis
    by (simp add: searchWeb_execute_def)
next
  case (Inr hits)
  then show ?thesis
    by (auto simp: searchWeb_execute_def to_search_result_def or_else_def
        split: option.splits)
qed

theorem searchWeb_one_entry_per_hit_and_no_throw_witness:
  "\<not> falsy_key (EXA_API_KEY example_tool_env)
   \<and> example_exa ''acme'' 3
       = Inr [\<lparr> hit_title = None, hit_url = ''https://a.example'', hit_text = ''alpha'' \<rparr>,
              \<lparr> hit_title = Some ''Beta'', hit_url = ''https://b.example'', hit_text = ''beta'' \<rparr>]
   \<and> (\<exists>results. searchWeb_execute example_exa example_tool_env ''acme''
          = (Inr results, [WebSearch ''acme''])
        \<and> length results = 2 \<and> length results \<le> 3
        \<and> sr_title (results ! 0) = ''No title'' \<and> sr_url (results ! 0) = ''https://a.example''
        \<and> sr_content (results ! 0) = ''alpha''
        \<and> sr_title (results ! 1) = ''Beta'' \<and> sr_url (results ! 1) = ''https://b.example''
        \<and> sr_content (results ! 1) = ''beta'')
   \<and> searchWeb_execute example_exa example_tool_env ''down''
       = (Inr [], [WebSearch ''down'', Log ''Search failed:''])
   \<and> (\<exists>err. fst (searchWeb_execute example_exa \<lparr> EXA_API_KEY = None, OPENAI_API_KEY = None \<rparr>
          ''acme'') = Inl err)"
proof -
  have key: "\<not> falsy_key (EXA_API_KEY example_tool_env)"
    by (simp add: example_tool_env_def falsy_key_def)
  have hits: "example_exa ''acme'' 3
       = Inr [\<lparr> hit_title = None, hit_url = ''https://a.example'', hit_text = ''alpha'' \<rparr>,
              \<lparr> hit_title = Some ''Beta'', hit_url = ''https://b.example'', hit_text = ''beta'' \<rparr>]"
    by (simp add: example_exa_def)
  have down: "example_exa ''down'' 3 = Inl (Error ''503'')"
    by (simp add: example_exa_def)
  have nokey: "falsy_key (EXA_API_KEY \<lparr> EXA_API_KEY = None, OPENAI_API_KEY = None \<rparr>)"
    by (simp add: falsy_key_def)
  note acme = searchWeb_one_entry_per_hit_and_no_throw
    [of example_exa example_tool_env "''acme''", THEN conjunct2, THEN conjunct2, THEN mp, OF key]
  have a: "\<exists>results. searchWeb_execute example_exa example_tool_env ''acme''
          = (Inr results, [WebSearch ''acme''])
        \<and> length results = 2 \<and> length results \<le> 3
        \<and> sr_title (results ! 0) = ''No title'' \<and> sr_url (results ! 0) = ''https://a.example''
        \<and> sr_content (results ! 0) = ''alpha''
        \<and> sr_title (results ! 1) = ''Beta'' \<and> sr_url (results ! 1) = ''https://b.example''
        \<and> sr_content (results ! 1) = ''beta''"
    using acme unfolding hits by (auto simp: All_less_Suc)
  note down_answer = searchWeb_one_entry_per_hit_and_no_throw
    [of example_exa example_tool_env "''down''", THEN conjunct2, THEN conjunct2, THEN mp, OF key]
  have b: "searchWeb_execute example_exa example_tool_env ''down''
       = (Inr [], [WebSearch ''down'', Log ''Search failed:''])"
    using down_answer unfolding down by auto
  note throws = searchWeb_one_entry_per_hit_and_no_throw
    [of example_exa "\<lparr> EXA_API_KEY = None, OPENAI_API_KEY = None \<rparr>" "''acme''", THEN conjunct1]
  have c: "\<exists>err. fst (searchWeb_execute example_exa \<lparr> EXA_API_KEY = None, OPENAI_API_KEY = None \<rparr>
          ''acme'') = Inl err"
    using throws nokey by (simp only:)
  from key hits a b c show ?thesis by blast
qed

section \<open>Properties of the populate-companies route\<close>

lemma embedded_texts_append:
  "embedded_texts (xs @ ys) = embedded_texts xs @ embedded_texts ys"
  by (simp add: embedded_texts_def List.map_filter_def)

lemma embedded_texts_Cons:
  "embedded_texts (e # xs) = (case e of Embedding t \<Rightarrow> [t] | _ \<Rightarrow> []) @ embedded_texts xs"
  by (simp add: embedded_texts_def split: event.splits)

lemma embedded_texts_Nil: "embedded_texts [] = []"
  by (simp add: embedded_texts_def)

lemma embedded_texts_embeds:
  "embedded_texts (map (\<lambda>c. Embedding (textToEmbed c)) cs) = map textToEmbed cs"
  by (induction cs) (simp_all add: embedded_texts_def)

text \<open>The vectors that reach the insert are those of the rows whose embedding returned.\<close>

lemma embed_companies_ids:
  "map v_id (fst (embed_companies run cs))
     = map (\<lambda>c. ''company_'' @ string_of_int (c_id c))
         (filter (\<lambda>c. \<not> isl (run (textToEmbed c))) cs)"
  by (induction cs) (auto simp: company_vector_of_def split: prod.splits sum.splits)

lemma populate_keys:
  "set (body_keys (fst (populateCompanies env)))
     \<subseteq> {''success'', ''message'', ''errors'', ''details'', ''error''}"
  by (auto simp: body_keys_def)

lemma populate_embeds_all:
  "DB_all_companies env = Inr companies \<Longrightarrow> companies \<noteq> [] \<Longrightarrow>
   embedded_texts (snd (populateCompanies env)) = map textToEmbed companies"
  by (auto simp: populateCompanies_def Let_def embedded_texts_append embedded_texts_embeds
       embedded_texts_Cons embedded_texts_Nil split: prod.splits sum.splits)

lemma populate_inserts_embedded:
  assumes "DB_all_companies env = Inr companies"
    and "filter (\<lambda>c. \<not> isl (AI_run env (textToEmbed c))) companies \<noteq> []"
  shows "VectorInsert (map (\<lambda>c. ''company_'' @ string_of_int (c_id c))
            (filter (\<lambda>c. \<not> isl (AI_run env (textToEmbed c))) companies))
           \<in> set (snd (populateCompanies env))"
proof -
  let ?ok = "filter (\<lambda>c. \<not> isl (AI_run env (textToEmbed c))) companies"
  have ids: "map v_id (fst (embed_companies (AI_run env) companies))
      = map (\<lambda>c. ''company_'' @ string_of_int (c_id c)) ?ok"
    by (rule embed_companies_ids)
  then have "length (fst (embed_companies (AI_run env) companies)) = length ?ok"
    by (metis length_map)
  with assms(2) have nonempty: "fst (embed_companies (AI_run env) companies) \<noteq> []"
    by auto
  from assms(2) have "companies \<noteq> []" by auto
  with assms(1) ids nonempty show ?thesis
    by (auto simp: populateCompanies_def Let_def split: prod.splits sum.splits)
qed

text \<open>
  Claim C10. Two requests to the populate-companies route that differ only in
  \<open>offset\<close> and \<open>limit\<close> produce the same response and the same effects on the same
  bindings. The body never has the keys \<open>processed\<close>, \<open>total\<close>, \<open>hasMore\<close> or
  \<open>nextOffset\<close>. Whenever the table is read and is not empty, every row is embedded,
  in table order, and the vectors of all rows whose embedding returned are handed to
  the index in one insert.
\<close>

theorem populateCompanies_ignores_offset_and_limit:
  "VectorizePopulateCompaniesRoute_handle offset limit env
     = VectorizePopulateCompaniesRoute_handle offset' limit' env
   \<and> ''processed'' \<notin> set (body_keys (snd (fst (VectorizePopulateCompaniesRoute_handle offset limit env))))
   \<and> ''total'' \<notin> set (body_keys (snd (fst (VectorizePopulateCompaniesRoute_handle offset limit env))))
   \<and> ''hasMore'' \<notin> set (body_keys (snd (fst (VectorizePopulateCompaniesRoute_handle offset limit env))))
   \<and> ''nextOffset'' \<notin> set (body_keys (snd (fst (VectorizePopulateCompaniesRoute_handle offset limit env))))
   \<and> (\<forall>companies. DB_all_companies env = Inr companies \<and> companies \<noteq> [] \<longrightarrow>
         embedded_texts (snd (VectorizePopulateCompaniesRoute_handle offset limit env))
           = map textToEmbed companies)
   \<and> (\<forall>companies. DB_all_companies env = Inr companies
          \<and> filter (\<lambda>c. \<not> isl (AI_run env (textToEmbed c))) companies \<noteq> [] \<longrightarrow>
         VectorInsert (map (\<lambda>c. ''company_'' @ string_of_int (c_id c))
            (filter (\<lambda>c. \<not> isl (AI_run env (textToEmbed c))) companies))
           \<in> set (snd (VectorizePopulateCompaniesRoute_handle offset limit env)))"
proof -
  have same: "VectorizePopulateCompaniesRoute_handle offset limit env
     = VectorizePopulateCompaniesRoute_handle offset' limit' env"
    by (simp add: VectorizePopulateCompaniesRoute_handle_def)
  have body: "snd (fst (VectorizePopulateCompaniesRoute_handle offset limit env))
     = fst (populateCompanies env)"
    by (simp add: VectorizePopulateCompaniesRoute_handle_def split: prod.splits)
  have effects: "snd (VectorizePopulateCompaniesRoute_handle offset limit env)
     = snd (populateCompanies env)"
    by (simp add: VectorizePopulateCompaniesRoute_handle_def split: prod.splits)
  have keys: "''processed'' \<notin> set (body_keys (fst (populateCompanies env)))"
    "''total'' \<notin> set (body_keys (fst (populateCompanies env)))"
    "''hasMore'' \<notin> set (body_keys (fst (populateCompanies env)))"
    "''nextOffset'' \<notin> set (body_keys (fst (populateCompanies env)))"
    using populate_keys [of env] by auto
  show ?thesis
    unfolding body effects
    using same keys populate_embeds_all [of env] populate_inserts_embedded [of env]
    by (simp add: effects)
qed

theorem populateCompanies_ignores_offset_and_limit_witness:
  "VectorizePopulateCompaniesRoute_handle (Num 0) (Num 1) example_vectorize_env
     = VectorizePopulateCompaniesRoute_handle (Num 50) NaN example_vectorize_env
   \<and> VectorizePopulateCompaniesRoute_handle (Num 0) (Num 1) example_vectorize_env
     = ((200, \<lparr> success = True, message_field = Some ''Populated 2 company vectors'',
                errors_field = None, details_field = Some 2, error_field = None \<rparr>),
        [DbRead, Embedding ''Acme Anvils  '', Embedding ''Globex   '',
         VectorInsert [''company_1'', ''company_2'']])"
  using populateCompanies_ignores_offset_and_limit
    [of "Num 0" "Num 1" example_vectorize_env "Num 50" NaN]
  by (simp add: VectorizePopulateCompaniesRoute_handle_def populateCompanies_def
      example_vectorize_env_def example_companies_def textToEmbed_def or_empty_def or_else_def
      company_vector_of_def string_of_int_def string_of_nat.simps digit_char_def Let_def)

section \<open>Properties of the templates routes\<close>

lemma update_others_untouched:
  "filter (\<lambda>t. t_userId t \<noteq> uid)
     (map (\<lambda>t. if owned tid uid t then set_fields k n s b t else t) ts)
   = filter (\<lambda>t. t_userId t \<noteq> uid) ts"
  by (induction ts) (auto simp: owned_def set_fields_def)

lemma delete_others_untouched:
  "filter (\<lambda>t. t_userId t \<noteq> uid) (filter (\<lambda>t. \<not> owned tid uid t) ts)
   = filter (\<lambda>t. t_userId t \<noteq> uid) ts"
  by (induction ts) (auto simp: owned_def)

lemma update_not_owned_id:
  "(\<And>t. t \<in> set ts \<Longrightarrow> \<not> owned tid uid t) \<Longrightarrow>
   map (\<lambda>t. if owned tid uid t then set_fields k n s b t else t) ts = ts"
  by (induction ts) auto

lemma filter_none: "(\<And>t. t \<in> set ts \<Longrightarrow> \<not> P t) \<Longrightarrow> filter P ts = []"
  by (induction ts) auto

lemma update_other_user_404:
  assumes "\<And>t. t \<in> set ts \<Longrightarrow> t_id t = tid \<Longrightarrow> t_userId t \<noteq> uid"
  shows "ProtectedTemplatesUpdateRoute_handle k (Some uid) tid n s b ts = (not_found, ts, [DbWrite])"
proof -
  have no: "\<And>t. t \<in> set ts \<Longrightarrow> \<not> owned tid uid t"
    using assms by (auto simp: owned_def)
  then have "map (\<lambda>t. if owned tid uid t then set_fields k n s b t else t) ts = ts"
    by (rule update_not_owned_id)
  moreover have "filter (owned tid uid) ts = []"
    using no by (rule filter_none)
  ultimately show ?thesis
    by (simp add: ProtectedTemplatesUpdateRoute_handle_def)
qed

lemma delete_other_user_404:
  assumes "\<And>t. t \<in> set ts \<Longrightarrow> t_id t = tid \<Longrightarrow> t_userId t \<noteq> uid"
  shows "ProtectedTemplatesDeleteRoute_handle (Some uid) tid ts = (not_found, ts, [DbWrite])"
proof -
  have no: "\<And>t. t \<in> set ts \<Longrightarrow> \<not> owned tid uid t"
    using assms by (auto simp: owned_def)
  then have "filter (owned tid uid) ts = []" by (rule filter_none)
  moreover have "filter (\<lambda>t. \<not> owned tid uid t) ts = ts"
    using no by (induction ts) auto
  ultimately show ?thesis
    by (simp add: ProtectedTemplatesDeleteRoute_handle_def)
qed

lemma no_session_401: "templates_route k None req ts = (unauthorized, ts, [])"
  by (cases req) (simp_all add: ProtectedTemplatesListRoute_handle_def
      ProtectedTemplatesCreateRoute_handle_def ProtectedTemplatesUpdateRoute_handle_def
      ProtectedTemplatesDeleteRoute_handle_def)

text \<open>
  Claim C6. Without an authenticated session every templates request (list, create,
  update, delete) is answered with 401 \<open>Unauthorized\<close>, the table is unchanged and no
  database call is made. With a session, an update or a delete leaves the rows of every
  other user exactly as they were and adds no row; and when the named id is not the id of
  a row of the session's user (it is another user's template, or no template at all), the
  answer is 404 \<open>Template not found\<close> and the table is unchanged.
\<close>

theorem templates_are_user_owned:
  "templates_route k None req ts = (unauthorized, ts, [])
   \<and> (is_update_or_delete req \<longrightarrow>
        filter (\<lambda>t. t_userId t \<noteq> uid) (fst (snd (templates_route k (Some uid) req ts)))
          = filter (\<lambda>t. t_userId t \<noteq> uid) ts
        \<and> length (fst (snd (templates_route k (Some uid) req ts))) \<le> length ts
        \<and> ((\<forall>t \<in> set ts. t_id t = named_id req \<longrightarrow> t_userId t \<noteq> uid) \<longrightarrow>
             fst (templates_route k (Some uid) req ts) = not_found
             \<and> fst (snd (templates_route k (Some uid) req ts)) = ts))"
proof (cases req)
  case ListTemplates
  with no_session_401 [of k req ts] show ?thesis by (simp add: is_update_or_delete_def)
next
  case (CreateTemplate n s b)
  with no_session_401 [of k req ts] show ?thesis by (simp add: is_update_or_delete_def)
next
  case (UpdateTemplate tid n s b)
  have a: "filter (\<lambda>t. t_userId t \<noteq> uid)
     (fst (snd (ProtectedTemplatesUpdateRoute_handle k (Some uid) tid n s b ts)))
     = filter (\<lambda>t. t_userId t \<noteq> uid) ts"
    by (simp add: ProtectedTemplatesUpdateRoute_handle_def Let_def update_others_untouched
        split: list.splits)
  have b: "length (fst (snd (ProtectedTemplatesUpdateRoute_handle k (Some uid) tid n s b ts)))
     \<le> length ts"
    by (simp add: ProtectedTemplatesUpdateRoute_handle_def Let_def split: list.splits)
  from UpdateTemplate a b show ?thesis
    using update_other_user_404 [of ts tid uid k n s b] no_session_401 [of k req ts]
    by (auto simp: named_id_def)
next
  case (DeleteTemplate tid)
  have a: "filter (\<lambda>t. t_userId t \<noteq> uid)
     (fst (snd (ProtectedTemplatesDeleteRoute_handle (Some uid) tid ts)))
     = filter (\<lambda>t. t_userId t \<noteq> uid) ts"
    using delete_others_untouched [of uid tid ts]
    by (simp add: ProtectedTemplatesDeleteRoute_handle_def Let_def del: filter_filter)
  have b: "length (fst (snd (ProtectedTemplatesDeleteRoute_handle (Some uid) tid ts)))
     \<le> length ts"
    by (simp add: ProtectedTemplatesDeleteRoute_handle_def Let_def)
  from DeleteTemplate a b show ?thesis
    using delete_other_user_404 [of ts tid uid] no_session_401 [of k req ts]
    by (auto simp: named_id_def)
qed

theorem templates_are_user_owned_witness:
  "is_update_or_delete (DeleteTemplate ''t-2'')
   \<and> templates_route example_clock None (DeleteTemplate ''t-2'') example_templates
       = (\<lparr> status = 401, body = ErrorBody ''Unauthorized'' \<rparr>, example_templates, [])
   \<and> templates_route example_clock (Some ''alice'') (DeleteTemplate ''t-2'') example_templates
       = (\<lparr> status = 404, body = ErrorBody ''Template not found'' \<rparr>, example_templates, [DbWrite])
   \<and> fst (snd (templates_route example_clock (Some ''alice'') (DeleteTemplate ''t-1'') example_templates))
       = tl example_templates"
  using templates_are_user_owned [of example_clock "DeleteTemplate ''t-2''" example_templates "''alice''"]
  by (simp add: is_update_or_delete_def ProtectedTemplatesDeleteRoute_handle_def
      example_templates_def owned_def unauthorized_def not_found_def)

section \<open>Properties of the template prefill\<close>

lemma getSubstitution_plain:
  "CHR ''$'' \<notin> set replacement \<Longrightarrow> getSubstitution matched str position replacement = replacement"
  by (induction matched str position replacement rule: getSubstitution.induct) auto

lemma replace_from_plain:
  "CHR ''$'' \<notin> set replacement \<Longrightarrow>
   replace_from pat replacement str position rest = replace_every_occurrence pat replacement rest"
proof (induction pat replacement str position rest rule: replace_from.induct)
  case (1 pat replacement str position rest)
  show ?case
  proof (cases "pat = [] \<or> rest = []")
    case True
    then show ?thesis
      by (subst replace_from.simps, subst replace_every_occurrence.simps) simp
  next
    case False
    show ?thesis
    proof (cases "take (length pat) rest = pat")
      case True
      with False 1 show ?thesis
        by (subst replace_from.simps, subst replace_every_occurrence.simps)
           (simp add: getSubstitution_plain)
    next
      case nomatch: False
      with False 1 show ?thesis
        by (subst replace_from.simps, subst replace_every_occurrence.simps) simp
    qed
  qed
qed

lemma replace_g_plain:
  "CHR ''$'' \<notin> set replacement \<Longrightarrow>
   replace_g pat replacement str = replace_every_occurrence pat replacement str"
  by (simp add: replace_g_def replace_from_plain)

text \<open>
  Claim C2 as stated does not hold: the subject of the template is copied into the
  compose field as it is, a placeholder in it is not substituted.
\<close>

theorem handleTemplateSelect_subject_counterexample:
  "emailSubject (handleTemplateSelect ''Ada Lovelace'' (Some ''Acme'') example_template)
     = ''Hi {{firstName}}''
   \<and> emailSubject (prefill_as_specified ''Ada Lovelace'' (Some ''Acme'') example_template)
     = ''Hi Ada''
   \<and> handleTemplateSelect ''Ada Lovelace'' (Some ''Acme'') example_template
     \<noteq> prefill_as_specified ''Ada Lovelace'' (Some ''Acme'') example_template"
proof -
  have code: "emailSubject (handleTemplateSelect ''Ada Lovelace'' (Some ''Acme'') example_template)
     = ''Hi {{firstName}}''"
    by (simp add: handleTemplateSelect_def example_template_def Let_def)
  have spec: "emailSubject (prefill_as_specified ''Ada Lovelace'' (Some ''Acme'') example_template)
     = ''Hi Ada''"
    by code_simp
  from code spec show ?thesis by auto
qed

text \<open>
  Claim C2, amended. Selecting a template prefills the subject field with the stored
  subject unchanged. The body field is the stored body in which every occurrence of
  \<open>{{firstName}}\<close> is replaced by the part of the person's name before the first space,
  and then every occurrence of \<open>{{company}}\<close> by the company name, or by
  \<open>your company\<close> when the company name is missing or empty; this holds whenever neither
  replacement text contains a dollar sign.
\<close>

theorem handleTemplateSelect_substitutes_body_only:
  "emailSubject (handleTemplateSelect person_name companyName tmpl) = tmpl_subject tmpl
   \<and> (CHR ''$'' \<notin> set (firstName_of person_name)
        \<and> CHR ''$'' \<notin> set (or_else companyName ''your company'') \<longrightarrow>
       emailBody (handleTemplateSelect person_name companyName tmpl)
         = replace_every_occurrence ''{{company}}'' (or_else companyName ''your company'')
             (replace_every_occurrence ''{{firstName}}'' (firstName_of person_name)
                (tmpl_body tmpl)))"
  by (simp add: handleTemplateSelect_def Let_def replace_g_plain)

theorem handleTemplateSelect_substitutes_body_only_witness:
  "CHR ''$'' \<notin> set (firstName_of ''Ada Lovelace'')
   \<and> CHR ''$'' \<notin> set (or_else None ''your company'')
   \<and> handleTemplateSelect ''Ada Lovelace'' None example_template
       = \<lparr> emailSubject = ''Hi {{firstName}}'',
           emailBody = ''Dear Ada, I admire your company.'' \<rparr>"
proof -
  have h1: "CHR ''$'' \<notin> set (firstName_of ''Ada Lovelace'')"
    by (simp add: firstName_of_def)
  have h2: "CHR ''$'' \<notin> set (or_else None ''your company'')"
    by (simp add: or_else_def)
  have spec: "replace_every_occurrence ''{{company}}'' (or_else None ''your company'')
             (replace_every_occurrence ''{{firstName}}'' (firstName_of ''Ada Lovelace'')
                (tmpl_body example_template)) = ''Dear Ada, I admire your company.''"
    by code_simp
  from handleTemplateSelect_substitutes_body_only [of "''Ada Lovelace''" None example_template]
    h1 h2 spec
  have "emailSubject (handleTemplateSelect ''Ada Lovelace'' None example_template)
          = ''Hi {{firstName}}''
        \<and> emailBody (handleTemplateSelect ''Ada Lovelace'' None example_template)
          = ''Dear Ada, I admire your company.''"
    by (simp add: example_template_def)
  then have "handleTemplateSelect ''Ada Lovelace'' None example_template
       = \<lparr> emailSubject = ''Hi {{firstName}}'',
           emailBody = ''Dear Ada, I admire your company.'' \<rparr>"
    by (cases "handleTemplateSelect ''Ada Lovelace'' None example_template") simp
  with h1 h2 show ?thesis by simp
qed

section \<open>Properties of the upserts\<close>











text \<open>
  Claim C9 fails on the code for a number that is \<open>NaN\<close>. \<open>upsertCompany\<close> leaves out
  of the \<open>UPDATE\<close> the values that are \<open>null\<close> or \<open>undefined\<close>; \<open>NaN\<close> is neither, so it is
  bound, and the column is \<open>NULL\<close> afterwards. The company Acme is stored with the year
  1999: an upsert of Acme whose \<open>yearFounded\<close> is \<open>NaN\<close> returns the id of the stored row,
  adds no row, and leaves the year \<open>NULL\<close>. The Orchestrator makes this call when the
  model output gives a \<open>yearFounded\<close> that is not a numeral: \<open>parseInt\<close> of it is \<open>NaN\<close>.
\<close>

theorem upsertCompany_NaN_overwrites_stored_year:
  "map c_yearFounded (company_profiles example_database) = [Some (Num 1999)]
   \<and> fst (upsertCompany example_database (JString ''Acme'') JNull (Some example_nan_data)) = Inr 1
   \<and> map c_yearFounded (company_profiles
         (snd (upsertCompany example_database (JString ''Acme'') JNull (Some example_nan_data))))
       = [None]
   \<and> JSON_parse example_agent_services (cleanText ''```json {unknown year} ```'')
       = Inr example_result_unknown_year
   \<and> parseInt_String example_agent_services (JString ''unknown'') = NaN
   \<and> map c_yearFounded (company_profiles (fst (snd
         (Orchestrator_onRequest example_agent_services example_database
            (Some ''{unknown year}'')))))
       = [None]"
  by code_simp

section \<open>Properties of the cleanup of model output\<close>

lemma rev_dropWhile_rev_Nil:
  "rev (dropWhile P (rev xs)) = [] \<longleftrightarrow> (\<forall>x \<in> set xs. P x)"
  by (simp add: dropWhile_eq_Nil_conv)

lemma jsonMatch_eq:
  "jsonMatch t = (if has_open_then_close t then Some (first_open_through_last_close t) else None)"
  by (auto simp: jsonMatch_def has_open_then_close_def first_open_through_last_close_def Let_def
      dropWhile_eq_Nil_conv)

lemma cleanText_eq:
  "cleanText text =
     (if has_open_then_close (unfenced text) then first_open_through_last_close (unfenced text)
      else unfenced text)"
  by (simp add: cleanText_def unfenced_def Let_def jsonMatch_eq)

lemma split_at_last:
  "xs = rev (dropWhile P (rev xs)) @ rev (takeWhile P (rev xs))"
proof -
  have "rev (dropWhile P (rev xs)) @ rev (takeWhile P (rev xs))
        = rev (takeWhile P (rev xs) @ dropWhile P (rev xs))"
    by (simp only: rev_append)
  also have "\<dots> = rev (rev xs)"
    by (simp only: takeWhile_dropWhile_id)
  finally show ?thesis by simp
qed

lemma braces_decomposition:
  assumes "has_open_then_close t"
  shows "\<exists>pre post. t = pre @ first_open_through_last_close t @ post
           \<and> CHR ''{'' \<notin> set pre \<and> CHR ''}'' \<notin> set post
           \<and> hd (first_open_through_last_close t) = CHR ''{''
           \<and> last (first_open_through_last_close t) = CHR ''}''"
proof -
  let ?open = "\<lambda>c. c \<noteq> CHR ''{''"
  let ?close = "\<lambda>c. c \<noteq> CHR ''}''"
  let ?pre = "takeWhile ?open t"
  let ?from = "dropWhile ?open t"
  let ?r = "rev (dropWhile ?close (rev ?from))"
  let ?post = "rev (takeWhile ?close (rev ?from))"
  have r: "first_open_through_last_close t = ?r"
    by (simp add: first_open_through_last_close_def)
  from assms have close_in: "CHR ''}'' \<in> set ?from"
    by (simp add: has_open_then_close_def)
  then have from_ne: "?from \<noteq> []"
    by (metis empty_iff empty_set)
  have t: "t = ?pre @ ?from" by simp
  have f: "?from = ?r @ ?post" by (rule split_at_last)
  have pre: "CHR ''{'' \<notin> set ?pre"
    by (auto dest: set_takeWhileD)
  have post: "CHR ''}'' \<notin> set ?post"
    by (auto dest: set_takeWhileD)
  from close_in have dne: "dropWhile ?close (rev ?from) \<noteq> []"
    by (auto simp: dropWhile_eq_Nil_conv)
  then have r_ne: "?r \<noteq> []" by simp
  have "hd ?from = CHR ''{''"
    using from_ne hd_dropWhile [of ?open t] by auto
  with f r_ne have hd_r: "hd ?r = CHR ''{''"
    by (metis hd_append2)
  have "last ?r = hd (dropWhile ?close (rev ?from))"
    using dne by (simp add: last_rev)
  also have "\<dots> = CHR ''}''"
    using dne hd_dropWhile [of ?close "rev ?from"] by auto
  finally have last_r: "last ?r = CHR ''}''" .
  from t f have "t = ?pre @ ?r @ ?post" by metis
  with pre post hd_r last_r r show ?thesis by metis
qed

lemma parse_failure_response:
  assumes "or_else q [] \<noteq> []" and "generateText w [or_else q []] = Inr text"
    and "JSON_parse w (cleanText text) = Inl e"
  shows "Orchestrator_onRequest w db q = (Inr parsing_error, db, [ModelCall])"
  using assms by (simp add: Orchestrator_onRequest_def Let_def and_then_def)

text \<open>
  Claim C5 as stated does not hold for a text that has an opening brace but no closing
  brace behind it: the text is then kept as it is, so what is parsed does not start at
  the first opening brace.
\<close>

theorem cleanText_counterexample:
  "CHR ''{'' \<in> set (unfenced ''Result: {company: Acme'')
   \<and> cleanText ''Result: {company: Acme'' = ''Result: {company: Acme''
   \<and> hd (cleanText ''Result: {company: Acme'') \<noteq> CHR ''{''
   \<and> cleanText ''Result: {company: Acme'' \<noteq> cleanText_as_specified ''Result: {company: Acme''
   \<and> CHR ''{'' \<in> set (unfenced ''done} now {company'')
   \<and> cleanText ''done} now {company'' = ''done} now {company''
   \<and> cleanText ''done} now {company'' \<noteq> cleanText_as_specified ''done} now {company''"
  by code_simp

text \<open>
  Claim C5, amended. For every model output the text handed to \<open>JSON.parse\<close> is computed
  so: trim; if the text starts with the json fence, or else with a plain fence, strip that
  fence and a trailing fence with the white space next to them; then, if the text has an
  opening brace with a closing brace somewhere behind it, keep exactly the part from the
  first opening brace through the last closing brace, and otherwise keep the text as it
  is. Whenever \<open>JSON.parse\<close> throws on that text, the request completes with status 500
  and the body \<open>{"error":"parsing error"}\<close>, and no statement is sent to the database.
\<close>

theorem cleanText_then_parse:
  "cleanText text =
     (if has_open_then_close (unfenced text) then first_open_through_last_close (unfenced text)
      else unfenced text)
   \<and> (has_open_then_close (unfenced text) \<longrightarrow>
        (\<exists>pre post. unfenced text = pre @ cleanText text @ post
           \<and> CHR ''{'' \<notin> set pre \<and> CHR ''}'' \<notin> set post
           \<and> hd (cleanText text) = CHR ''{'' \<and> last (cleanText text) = CHR ''}''))
   \<and> (or_else q [] \<noteq> [] \<and> generateText w [or_else q []] = Inr text
        \<and> JSON_parse w (cleanText text) = Inl e \<longrightarrow>
        Orchestrator_onRequest w db q = (Inr parsing_error, db, [ModelCall]))"
  using braces_decomposition [of "unfenced text"] parse_failure_response [of q w "text" e db]
  by (simp add: cleanText_eq)

theorem cleanText_then_parse_witness:
  "has_open_then_close (unfenced '' ```json  note {a: {b}} end ```  '')
   \<and> cleanText '' ```json  note {a: {b}} end ```  '' = ''{a: {b}}''
   \<and> or_else (Some ''{truncated'') [] \<noteq> []
   \<and> generateText example_agent_services [or_else (Some ''{truncated'') []]
       = Inr ''```json {truncated ```''
   \<and> JSON_parse example_agent_services (cleanText ''```json {truncated ```'')
       = Inl (Error ''SyntaxError'')
   \<and> fst (Orchestrator_onRequest example_agent_services example_database (Some ''{truncated''))
       = Inr \<lparr> res_status = 500, res_body = JObject [(''error'', JString ''parsing error'')] \<rparr>
   \<and> fst (snd (Orchestrator_onRequest example_agent_services example_database (Some ''{truncated'')))
       = example_database"
proof -
  have h1: "has_open_then_close (unfenced '' ```json  note {a: {b}} end ```  '')"
    by code_simp
  have h2: "cleanText '' ```json  note {a: {b}} end ```  '' = ''{a: {b}}''"
    by code_simp
  have h3: "or_else (Some ''{truncated'') [] \<noteq> []"
    by code_simp
  have h4: "generateText example_agent_services [or_else (Some ''{truncated'') []]
       = Inr ''```json {truncated ```''"
    by code_simp
  have h5: "JSON_parse example_agent_services (cleanText ''```json {truncated ```'')
       = Inl (Error ''SyntaxError'')"
    by code_simp
  from cleanText_then_parse
    [of "''```json {truncated ```''" "Some ''{truncated''" example_agent_services
        "Error ''SyntaxError''" example_database]
    h3 h4 h5
  have "Orchestrator_onRequest example_agent_services example_database (Some ''{truncated'')
        = (Inr parsing_error, example_database, [ModelCall])"
    by simp
  with h1 h2 h3 h4 h5 show ?thesis
    by (simp add: parsing_error_def)
qed

section \<open>Properties of the Orchestrator: the people of a response\<close>

lemma map_of_set_prop:
  "map_of (set_prop k v kvs) k' = (if k' = k then Some v else map_of kvs k')"
proof (cases "k \<in> fst ` set kvs")
  case True
  have "map_of (map (\<lambda>(k', v'). if k' = k then (k, v) else (k', v')) kvs) k'
        = (if k' = k then (if k \<in> fst ` set kvs then Some v else None) else map_of kvs k')"
    by (induction kvs) force+
  with True show ?thesis by (simp add: set_prop_def)
next
  case False
  then have "map_of kvs k = None"
    by (simp add: map_of_eq_None_iff)
  with False show ?thesis
    by (auto simp: set_prop_def map_add_def split: option.splits)
qed

lemma field_set_prop:
  "field (JObject (set_prop k v kvs)) k' = (if k' = k then v else field (JObject kvs) k')"
  by (simp add: field_def map_of_set_prop)

lemma has_emails_True:
  "has_emails p = Inr True \<Longrightarrow> \<exists>es. get_prop p ''emails'' = Inr (JArray es) \<and> es \<noteq> []"
  by (auto simp: has_emails_def and_then_def split: sum.splits js_value.splits)

lemma filter_people_kept:
  "filter_people ps = Inr kept \<Longrightarrow> kept = filter (\<lambda>p. has_emails p = Inr True) ps"
proof (induction ps arbitrary: kept)
  case Nil
  then show ?case by simp
next
  case (Cons p ps)
  then show ?case
    by (auto simp: and_then_def split: sum.splits if_splits)
qed

lemma filter_people_none:
  "(\<And>p. p \<in> set ps \<Longrightarrow> has_emails p = Inr False) \<Longrightarrow> filter_people ps = Inr []"
  by (induction ps) (auto simp: and_then_def)

lemma with_filtered_people_array:
  assumes "with_filtered_people v = Inr v'" and "field v' ''people'' = JArray ps"
  shows "\<forall>p \<in> set ps. has_emails p = Inr True"
proof (cases v)
  case (JObject kvs)
  show ?thesis
  proof (cases "field v ''people''")
    case (JArray persons)
    with JObject assms(1) obtain kept where k: "filter_people persons = Inr kept"
      and v': "v' = JObject (set_prop ''people'' (JArray kept) kvs)"
      by (auto simp: with_filtered_people_def and_then_def field_def split: sum.splits option.splits)
    from v' assms(2) have "ps = kept" by (simp add: field_set_prop)
    with filter_people_kept [OF k] show ?thesis by simp
  qed (use JObject assms in \<open>auto simp: with_filtered_people_def and_then_def field_def
        split: sum.splits option.splits\<close>)
qed (use assms in \<open>auto simp: with_filtered_people_def and_then_def field_def
        split: sum.splits if_splits\<close>)

lemma field_empty_object: "field (JObject []) k = JUndefined"
  by (simp add: field_def)

lemma final_response_people:
  assumes "final_response w v = Inr resp"
  shows "field (res_body resp) ''people''
           = (case v of JObject kvs \<Rightarrow> field v ''people'' | _ \<Rightarrow> JUndefined)"
proof -
  from assms obtain favicon where
    "res_body resp = JObject (set_prop ''state'' (agent_state w)
        (set_prop ''favicon'' favicon (case v of JObject kvs \<Rightarrow> kvs | _ \<Rightarrow> [])))"
    by (auto simp: final_response_def and_then_def split: sum.splits if_splits)
  then show ?thesis
    by (cases v) (simp_all add: field_set_prop field_empty_object)
qed

lemma Orchestrator_responses:
  assumes "fst (Orchestrator_onRequest w db q) = Inr resp"
  shows "resp = \<lparr> res_status = 400,
                  res_body = JObject [(''error'', JString ''query is required'')] \<rparr>
    \<or> resp = parsing_error
    \<or> resp = no_emails_found w
    \<or> (\<exists>t v v'. JSON_parse w (cleanText t) = Inr v \<and> with_filtered_people v = Inr v'
          \<and> final_response w v' = Inr resp)"
  using assms unfolding Orchestrator_onRequest_def Let_def and_then_def
  by (auto split: sum.splits if_splits prod.splits option.splits)

lemma Orchestrator_people_nonempty_emails:
  assumes "fst (Orchestrator_onRequest w db q) = Inr resp"
    and "field (res_body resp) ''people'' = JArray ps"
  shows "\<forall>p \<in> set ps. \<exists>es. get_prop p ''emails'' = Inr (JArray es) \<and> es \<noteq> []"
  using Orchestrator_responses [OF assms(1)]
proof (elim disjE exE conjE, goal_cases)
  case 1
  with assms(2) show ?case by (simp add: field_def)
next
  case 2
  with assms(2) show ?case by (simp add: field_def parsing_error_def)
next
  case 3
  with assms(2) show ?case by (simp add: field_def no_emails_found_def)
next
  case (4 t v v')
  from final_response_people [OF 4(3)] assms(2)
  have "field v' ''people'' = JArray ps"
    by (cases v') simp_all
  from with_filtered_people_array [OF 4(2) this] show ?case
    by (auto dest: has_emails_True)
qed

lemma Orchestrator_no_emails:
  assumes "or_else q [] \<noteq> []" and "generateText w [or_else q []] = Inr t"
    and "JSON_parse w (cleanText t) = Inr (JObject kvs)"
    and "map_of kvs ''people'' = Some (JArray persons)"
    and "\<forall>p \<in> set persons. has_emails p = Inr False"
  shows "Orchestrator_onRequest w db q = (Inr (no_emails_found w), db, [ModelCall])"
proof -
  from assms(5) have f: "filter_people persons = Inr []"
    by (intro filter_people_none) simp
  with assms(4) have w: "with_filtered_people (JObject kvs)
      = Inr (JObject (set_prop ''people'' (JArray []) kvs))"
    by (simp add: with_filtered_people_def and_then_def)
  have n: "no_people (JObject (set_prop ''people'' (JArray []) kvs))"
    by (simp add: no_people_def Let_def field_set_prop, simp add: field_def)
  from assms(1,2,3) w n show ?thesis
    by (simp add: Orchestrator_onRequest_def Let_def and_then_def)
qed

text \<open>
  Claim C3. Whatever the Orchestrator answers, if the \<open>people\<close> of the response body is
  an array then every entry of it has an \<open>emails\<close> property that is an array with at
  least one element. And when the model output parses to an object whose \<open>people\<close> is an
  array in which no person has emails (for each, \<open>emails\<close> is missing, is not an array,
  or is empty), the answer is status 200 with the message \<open>no emails found\<close>, and the
  database is as it was, no statement having been sent.
\<close>

theorem Orchestrator_people_have_emails:
  "(fst (Orchestrator_onRequest w db q) = Inr resp
      \<and> field (res_body resp) ''people'' = JArray ps \<longrightarrow>
    (\<forall>p \<in> set ps. \<exists>es. get_prop p ''emails'' = Inr (JArray es) \<and> es \<noteq> []))
   \<and> (or_else q [] \<noteq> [] \<and> generateText w [or_else q []] = Inr t
        \<and> JSON_parse w (cleanText t) = Inr (JObject kvs)
        \<and> map_of kvs ''people'' = Some (JArray persons)
        \<and> (\<forall>p \<in> set persons. has_emails p = Inr False) \<longrightarrow>
       Orchestrator_onRequest w db q
         = (Inr \<lparr> res_status = 200,
                  res_body = JObject [(''message'', JString ''no emails found''),
                                      (''state'', agent_state w)] \<rparr>,
            db, [ModelCall]))"
  using Orchestrator_people_nonempty_emails [of w db q resp ps]
    Orchestrator_no_emails [of q w t kvs persons db]
  by (simp add: no_emails_found_def)

theorem Orchestrator_people_have_emails_witness:
  "fst (Orchestrator_onRequest example_agent_services example_database (Some ''{ok}''))
     = Inr \<lparr> res_status = 200,
             res_body = JObject [(''company'', JString ''Acme''),
                (''people'', JArray [example_person ''Bob'' [''bob@acme.io'', ''b@acme.io'']]),
                (''favicon'', JNull), (''state'', JNull)] \<rparr>
   \<and> get_prop (example_person ''Bob'' [''bob@acme.io'', ''b@acme.io'']) ''emails''
     = Inr (JArray [JString ''bob@acme.io'', JString ''b@acme.io''])
   \<and> or_else (Some ''{nobody}'') [] \<noteq> []
   \<and> generateText example_agent_services [or_else (Some ''{nobody}'') []]
     = Inr ''```json {nobody} ```''
   \<and> JSON_parse example_agent_services (cleanText ''```json {nobody} ```'')
     = Inr (JObject [(''company'', JString ''Acme''),
                     (''people'', JArray [example_person ''Eve'' []])])
   \<and> has_emails (example_person ''Eve'' []) = Inr False
   \<and> fst (Orchestrator_onRequest example_agent_services example_database (Some ''{nobody}''))
     = Inr \<lparr> res_status = 200,
             res_body = JObject [(''message'', JString ''no emails found''),
                                 (''state'', JNull)] \<rparr>
   \<and> fst (snd (Orchestrator_onRequest example_agent_services example_database (Some ''{nobody}'')))
     = example_database"
proof -
  have h1: "fst (Orchestrator_onRequest example_agent_services example_database (Some ''{ok}''))
     = Inr \<lparr> res_status = 200,
             res_body = JObject [(''company'', JString ''Acme''),
                (''people'', JArray [example_person ''Bob'' [''bob@acme.io'', ''b@acme.io'']]),
                (''favicon'', JNull), (''state'', JNull)] \<rparr>"
    by code_simp
  have h2: "get_prop (example_person ''Bob'' [''bob@acme.io'', ''b@acme.io'']) ''emails''
     = Inr (JArray [JString ''bob@acme.io'', JString ''b@acme.io''])"
    by code_simp
  have h3: "or_else (Some ''{nobody}'') [] \<noteq> []"
    by code_simp
  have h4: "generateText example_agent_services [or_else (Some ''{nobody}'') []]
     = Inr ''```json {nobody} ```''"
    by code_simp
  have h5: "JSON_parse example_agent_services (cleanText ''```json {nobody} ```'')
     = Inr (JObject [(''company'', JString ''Acme''),
                     (''people'', JArray [example_person ''Eve'' []])])"
    by code_simp
  have h6: "has_emails (example_person ''Eve'' []) = Inr False"
    by code_simp
  have h7: "agent_state example_agent_services = JNull"
    by (simp add: example_agent_services_def)
  from Orchestrator_people_have_emails
    [of example_agent_services example_database "Some ''{nobody}''" _ _
        "''```json {nobody} ```''"
        "[(''company'', JString ''Acme''), (''people'', JArray [example_person ''Eve'' []])]"
        "[example_person ''Eve'' []]"]
    h3 h4 h5 h6 h7
  have "Orchestrator_onRequest example_agent_services example_database (Some ''{nobody}'')
     = (Inr \<lparr> res_status = 200,
              res_body = JObject [(''message'', JString ''no emails found''),
                                  (''state'', JNull)] \<rparr>,
        example_database, [ModelCall])"
    by simp
  with h1 h2 h3 h4 h5 h6 show ?thesis by simp
qed

section \<open>Properties of the Orchestrator: the save\<close>
















lemma never_fails_tables [simp]:
  "never_fails (db \<lparr> employees := es \<rparr>) = never_fails db"
  "never_fails (db \<lparr> company_profiles := cs \<rparr>) = never_fails db"
  by (simp_all add: never_fails_def)










































section \<open>Properties of the finder agents\<close>

lemma people_rows_nonempty:
  assumes "r \<in> set rows" and "LOWER (r_company_name r) = LOWER company"
  shows "people_rows company rows \<noteq> []"
proof -
  let ?row = "(r_company_name r, r_website r, r_employee_name r, r_employee_title r)"
  from assms have "r \<in> set (filter (\<lambda>r. LOWER (r_company_name r) = LOWER company) rows)"
    by simp
  then have "?row \<in> set (people_rows company rows)"
    by (simp only: people_rows_def new_Set_set set_map) (rule imageI)
  then show ?thesis by auto
qed

lemma set_prop_fresh: "k \<notin> fst ` set kvs \<Longrightarrow> set_prop k v kvs = kvs @ [(k, v)]"
  by (simp add: set_prop_def)

lemma PeopleFinder_cached:
  assumes "or_else (pr_company request) [] \<noteq> []" and "\<not> unavailable db (queries db)"
    and "people_rows (or_else (pr_company request) []) (companies_table db)
           = (name, site, ename, title) # others"
    and "normalizeUrl w site = Inr url"
  shows "PeopleFinder_onRequest w env db request
     = (ok_response (JObject
          [(''company'', JString name),
           (''website'', JString (or_empty url)),
           (''people'',
              JArray (map (\<lambda>(c, s, n, t). JObject [(''name'', JString n),
                                                  (''role'', JString (or_empty t))])
                        ((name, site, ename, title) # others))),
           (''state'', agent_state w)]),
        db \<lparr> queries := Suc (queries db) \<rparr>, [DbRead])"
  using assms
  by (simp add: PeopleFinder_onRequest_def checkPeopleInDB_def run_query_def Let_def
      set_prop_def)

lemma EmailFinder_cached:
  assumes "trim (or_else (er_firstName request) [] @ '' '' @ or_else (er_lastName request) []) = employeeName"
    and "employeeName \<noteq> []" and "employeeName \<noteq> ''Unknown''"
    and "\<not> unavailable db (queries db)"
    and "find (\<lambda>r. LOWER (r_employee_name r) = LOWER employeeName) (companies_table db) = Some r"
    and "normalizeUrl w (r_website r) = Inr url"
  shows "EmailFinder_onRequest w db request
     = (Inr (ok_response (JObject
          [(''emails'', JArray (take 3 (stored_emails w (r_email r)))),
           (''company_name'', JString (r_company_name r)),
           (''website'', JString (or_empty url)),
           (''employee_name'', JString employeeName),
           (''employee_title'', JString (or_empty (r_employee_title r))),
           (''verification_summary'',
              JString (string_of_nat (length (take 3 (stored_emails w (r_email r)))) @ '' out of '' @
                       string_of_nat (length (take 3 (stored_emails w (r_email r)))) @
                       '' emails verified'')),
           (''state'', agent_state w)])),
        db \<lparr> queries := Suc (queries db) \<rparr>, [DbRead])"
  using assms
  by (simp add: EmailFinder_onRequest_def checkEmailsInDB_def run_query_def Let_def
      set_prop_def)

text \<open>
  Claim C8 as stated does not hold for the EmailFinder when the employee name of the
  request is \<open>Unknown\<close>: the cache is then not consulted although a stored row has that
  name, and the agent calls the model.
\<close>

theorem EmailFinder_Unknown_counterexample:
  "trim (''Unknown'' @ '' '' @ []) = ''Unknown''
   \<and> LOWER (r_employee_name (hd (companies_table example_companies_database))) = LOWER ''Unknown''
   \<and> unavailable example_companies_database = (\<lambda>k. False)
   \<and> ModelCall \<in> set (snd (snd (EmailFinder_onRequest example_agent_services
          example_companies_database (request_for ''Unknown'' []))))
   \<and> DbRead \<notin> set (snd (snd (EmailFinder_onRequest example_agent_services
          example_companies_database (request_for ''Unknown'' []))))
   \<and> fst (EmailFinder_onRequest example_agent_services
          example_companies_database (request_for ''Unknown'' []))
       = Inr \<lparr> res_status = 200,
               res_body = JObject
                 [(''emails'', JArray []), (''company_name'', JString ''Acme''),
                  (''website'', JString ''acme.io''), (''employee_name'', JString ''Unknown''),
                  (''employee_title'', JString []),
                  (''verification_summary'', JString ''0 out of 0 emails verified''),
                  (''state'', JNull)] \<rparr>"
proof -
  have "unavailable example_companies_database = (\<lambda>k. False)"
    by (simp add: example_companies_database_def)
  moreover have "trim (''Unknown'' @ '' '' @ []) = ''Unknown''
   \<and> LOWER (r_employee_name (hd (companies_table example_companies_database))) = LOWER ''Unknown''
   \<and> ModelCall \<in> set (snd (snd (EmailFinder_onRequest example_agent_services
          example_companies_database (request_for ''Unknown'' []))))
   \<and> DbRead \<notin> set (snd (snd (EmailFinder_onRequest example_agent_services
          example_companies_database (request_for ''Unknown'' []))))
   \<and> fst (EmailFinder_onRequest example_agent_services
          example_companies_database (request_for ''Unknown'' []))
       = Inr \<lparr> res_status = 200,
               res_body = JObject
                 [(''emails'', JArray []), (''company_name'', JString ''Acme''),
                  (''website'', JString ''acme.io''), (''employee_name'', JString ''Unknown''),
                  (''employee_title'', JString []),
                  (''verification_summary'', JString ''0 out of 0 emails verified''),
                  (''state'', JNull)] \<rparr>"
    by code_simp
  ultimately show ?thesis by blast
qed

text \<open>
  Claim C8, amended. When the query of the cache does not throw and \<open>normalizeUrl\<close>
  returns: a PeopleFinder request whose company name is not empty and is, up to the case
  of letters, the \<open>company_name\<close> of a row of the table \<open>companies\<close> is answered with the
  stored company and people (the distinct rows of that company); an EmailFinder request
  whose employee name (first and last name joined and trimmed) is not empty, is not
  \<open>Unknown\<close>, and is up to case the \<open>employee_name\<close> of a row is answered with at most three
  of the emails stored in the first such row and a summary that reports all of them as
  verified. In both cases the only effect is the one read of the database: no web search,
  no model call and no email verification.
\<close>

theorem finders_answer_from_the_cache:
  "(or_else (pr_company request) [] \<noteq> [] \<and> \<not> unavailable db (queries db)
      \<and> row \<in> set (companies_table db)
      \<and> LOWER (r_company_name row) = LOWER (or_else (pr_company request) [])
      \<and> (\<forall>site. \<exists>url. normalizeUrl w site = Inr url) \<longrightarrow>
    (\<exists>name site ename title others url.
       people_rows (or_else (pr_company request) []) (companies_table db)
         = (name, site, ename, title) # others
       \<and> normalizeUrl w site = Inr url
       \<and> PeopleFinder_onRequest w env db request
         = (ok_response (JObject
              [(''company'', JString name),
               (''website'', JString (or_empty url)),
               (''people'',
                  JArray (map (\<lambda>(c, s, n, t). JObject [(''name'', JString n),
                                                      (''role'', JString (or_empty t))])
                            ((name, site, ename, title) # others))),
               (''state'', agent_state w)]),
            db \<lparr> queries := Suc (queries db) \<rparr>, [DbRead])))
   \<and> (trim (or_else (er_firstName erequest) [] @ '' '' @ or_else (er_lastName erequest) [])
         = employeeName
       \<and> employeeName \<noteq> [] \<and> employeeName \<noteq> ''Unknown''
       \<and> \<not> unavailable db (queries db)
       \<and> find (\<lambda>r. LOWER (r_employee_name r) = LOWER employeeName) (companies_table db) = Some r
       \<and> normalizeUrl w (r_website r) = Inr url \<longrightarrow>
       length (take 3 (stored_emails w (r_email r))) \<le> 3
       \<and> EmailFinder_onRequest w db erequest
         = (Inr (ok_response (JObject
              [(''emails'', JArray (take 3 (stored_emails w (r_email r)))),
               (''company_name'', JString (r_company_name r)),
               (''website'', JString (or_empty url)),
               (''employee_name'', JString employeeName),
               (''employee_title'', JString (or_empty (r_employee_title r))),
               (''verification_summary'',
                  JString (string_of_nat (length (take 3 (stored_emails w (r_email r)))) @
                           '' out of '' @
                           string_of_nat (length (take 3 (stored_emails w (r_email r)))) @
                           '' emails verified'')),
               (''state'', agent_state w)])),
            db \<lparr> queries := Suc (queries db) \<rparr>, [DbRead]))"
proof (intro conjI impI)
  assume a: "or_else (pr_company request) [] \<noteq> [] \<and> \<not> unavailable db (queries db)
      \<and> row \<in> set (companies_table db)
      \<and> LOWER (r_company_name row) = LOWER (or_else (pr_company request) [])
      \<and> (\<forall>site. \<exists>url. normalizeUrl w site = Inr url)"
  then have "people_rows (or_else (pr_company request) []) (companies_table db) \<noteq> []"
    by (intro people_rows_nonempty [of row]) simp_all
  then obtain name site ename title others where
    rows: "people_rows (or_else (pr_company request) []) (companies_table db)
      = (name, site, ename, title) # others"
    by (cases "people_rows (or_else (pr_company request) []) (companies_table db)") auto
  from a obtain url where url: "normalizeUrl w site = Inr url" by blast
  from a have b: "or_else (pr_company request) [] \<noteq> []" "\<not> unavailable db (queries db)"
    by simp_all
  from rows url PeopleFinder_cached [OF b rows url, of env]
  show "\<exists>name site ename title others url.
       people_rows (or_else (pr_company request) []) (companies_table db)
         = (name, site, ename, title) # others
       \<and> normalizeUrl w site = Inr url
       \<and> PeopleFinder_onRequest w env db request
         = (ok_response (JObject
              [(''company'', JString name),
               (''website'', JString (or_empty url)),
               (''people'',
                  JArray (map (\<lambda>(c, s, n, t). JObject [(''name'', JString n),
                                                      (''role'', JString (or_empty t))])
                            ((name, site, ename, title) # others))),
               (''state'', agent_state w)]),
            db \<lparr> queries := Suc (queries db) \<rparr>, [DbRead])"
    by blast
next
  show "length (take 3 (stored_emails w (r_email r))) \<le> 3" by simp
next
  assume "trim (or_else (er_firstName erequest) [] @ '' '' @ or_else (er_lastName erequest) [])
         = employeeName
       \<and> employeeName \<noteq> [] \<and> employeeName \<noteq> ''Unknown''
       \<and> \<not> unavailable db (queries db)
       \<and> find (\<lambda>r. LOWER (r_employee_name r) = LOWER employeeName) (companies_table db) = Some r
       \<and> normalizeUrl w (r_website r) = Inr url"
  then show "EmailFinder_onRequest w db erequest
         = (Inr (ok_response (JObject
              [(''emails'', JArray (take 3 (stored_emails w (r_email r)))),
               (''company_name'', JString (r_company_name r)),
               (''website'', JString (or_empty url)),
               (''employee_name'', JString employeeName),
               (''employee_title'', JString (or_empty (r_employee_title r))),
               (''verification_summary'',
                  JString (string_of_nat (length (take 3 (stored_emails w (r_email r)))) @
                           '' out of '' @
                           string_of_nat (length (take 3 (stored_emails w (r_email r)))) @
                           '' emails verified'')),
               (''state'', agent_state w)])),
            db \<lparr> queries := Suc (queries db) \<rparr>, [DbRead])"
    by (intro EmailFinder_cached) simp_all
qed

theorem finders_answer_from_the_cache_witness:
  "or_else (pr_company \<lparr> pr_company = Some ''ACME'', pr_website = None, pr_notes = None \<rparr>) [] \<noteq> []
   \<and> \<not> unavailable example_companies_database (queries example_companies_database)
   \<and> hd (companies_table example_companies_database) \<in> set (companies_table example_companies_database)
   \<and> LOWER (r_company_name (hd (companies_table example_companies_database))) = LOWER ''ACME''
   \<and> (\<forall>site. \<exists>url. normalizeUrl example_agent_services site = Inr url)
   \<and> fst (PeopleFinder_onRequest example_agent_services example_tool_env
            example_companies_database
            \<lparr> pr_company = Some ''ACME'', pr_website = None, pr_notes = None \<rparr>)
       = \<lparr> res_status = 200,
           res_body = JObject
             [(''company'', JString ''Acme''), (''website'', JString ''acme.io''),
              (''people'',
                 JArray [JObject [(''name'', JString ''Unknown''), (''role'', JString ''CEO'')],
                         JObject [(''name'', JString ''Ada Lovelace''), (''role'', JString [])]]),
              (''state'', JNull)] \<rparr>
   \<and> snd (snd (PeopleFinder_onRequest example_agent_services example_tool_env
            example_companies_database
            \<lparr> pr_company = Some ''ACME'', pr_website = None, pr_notes = None \<rparr>))
       = [DbRead]
   \<and> trim (or_else (er_firstName (request_for ''ada'' ''LOVELACE'')) [] @ '' '' @
            or_else (er_lastName (request_for ''ada'' ''LOVELACE'')) []) = ''ada LOVELACE''
   \<and> find (\<lambda>r. LOWER (r_employee_name r) = LOWER ''ada LOVELACE'')
        (companies_table example_companies_database)
       = Some (companies_table example_companies_database ! 1)
   \<and> fst (EmailFinder_onRequest example_agent_services example_companies_database
            (request_for ''ada'' ''LOVELACE''))
       = Inr \<lparr> res_status = 200,
               res_body = JObject
                 [(''emails'', JArray [JString ''u1@acme.io'', JString ''u2@acme.io'',
                                       JString ''u3@acme.io'']),
                  (''company_name'', JString ''Acme''), (''website'', JString ''acme.io''),
                  (''employee_name'', JString ''ada LOVELACE''),
                  (''employee_title'', JString []),
                  (''verification_summary'', JString ''3 out of 3 emails verified''),
                  (''state'', JNull)] \<rparr>
   \<and> snd (snd (EmailFinder_onRequest example_agent_services example_companies_database
            (request_for ''ada'' ''LOVELACE'')))
       = [DbRead]"
proof -
  have u: "\<not> unavailable example_companies_database (queries example_companies_database)"
    by (simp add: example_companies_database_def)
  have n: "\<forall>site. \<exists>url. normalizeUrl example_agent_services site = Inr url"
    by (simp add: example_agent_services_def)
  have h: "or_else (pr_company \<lparr> pr_company = Some ''ACME'', pr_website = None, pr_notes = None \<rparr>) [] \<noteq> []
   \<and> hd (companies_table example_companies_database) \<in> set (companies_table example_companies_database)
   \<and> LOWER (r_company_name (hd (companies_table example_companies_database))) = LOWER ''ACME''
   \<and> fst (PeopleFinder_onRequest example_agent_services example_tool_env
            example_companies_database
            \<lparr> pr_company = Some ''ACME'', pr_website = None, pr_notes = None \<rparr>)
       = \<lparr> res_status = 200,
           res_body = JObject
             [(''company'', JString ''Acme''), (''website'', JString ''acme.io''),
              (''people'',
                 JArray [JObject [(''name'', JString ''Unknown''), (''role'', JString ''CEO'')],
                         JObject [(''name'', JString ''Ada Lovelace''), (''role'', JString [])]]),
              (''state'', JNull)] \<rparr>
   \<and> snd (snd (PeopleFinder_onRequest example_agent_services example_tool_env
            example_companies_database
            \<lparr> pr_company = Some ''ACME'', pr_website = None, pr_notes = None \<rparr>))
       = [DbRead]
   \<and> trim (or_else (er_firstName (request_for ''ada'' ''LOVELACE'')) [] @ '' '' @
            or_else (er_lastName (request_for ''ada'' ''LOVELACE'')) []) = ''ada LOVELACE''
   \<and> find (\<lambda>r. LOWER (r_employee_name r) = LOWER ''ada LOVELACE'')
        (companies_table example_companies_database)
       = Some (companies_table example_companies_database ! 1)
   \<and> fst (EmailFinder_onRequest example_agent_services example_companies_database
            (request_for ''ada'' ''LOVELACE''))
       = Inr \<lparr> res_status = 200,
               res_body = JObject
                 [(''emails'', JArray [JString ''u1@acme.io'', JString ''u2@acme.io'',
                                       JString ''u3@acme.io'']),
                  (''company_name'', JString ''Acme''), (''website'', JString ''acme.io''),
                  (''employee_name'', JString ''ada LOVELACE''),
                  (''employee_title'', JString []),
                  (''verification_summary'', JString ''3 out of 3 emails verified''),
                  (''state'', JNull)] \<rparr>"
    by code_simp
  have nu: "normalizeUrl example_agent_services
              (r_website (companies_table example_companies_database ! 1)) = Inr (Some ''acme.io'')"
    by (simp add: example_agent_services_def example_companies_database_def)
  from finders_answer_from_the_cache
    [of "\<lparr> pr_company = Some ''ACME'', pr_website = None, pr_notes = None \<rparr>"
        example_companies_database "hd (companies_table example_companies_database)"
        example_agent_services example_tool_env "request_for ''ada'' ''LOVELACE''"
        "''ada LOVELACE''" "companies_table example_companies_database ! 1" "Some ''acme.io''",
     THEN conjunct2]
    u h nu
  have t: "snd (snd (EmailFinder_onRequest example_agent_services example_companies_database
            (request_for ''ada'' ''LOVELACE'')))
       = [DbRead]"
    by simp
  from u n h t show ?thesis by blast
qed

end
